theory Spec2Isabelle
  imports Main "HOL-Library.Sublist" "HOL-Library.Multiset" "HOL-Library.Char_ord" "HOL-Library.List_Lexorder"
begin

section \<open>Values of the Python program\<close>

text \<open>
  The server receives decoded JSON from the upstream API and formats it. A decoded JSON value
  is \<open>None\<close>, a \<open>bool\<close>, an \<open>int\<close>, a \<open>str\<close>, a \<open>list\<close> or a \<open>dict\<close> with distinct string
  keys, in insertion order. JSON numbers with a fraction or an exponent (Python floats) are not part of
  this model. A Python \<open>str\<close> is a list of characters, one \<open>char\<close> for each code point below 256;
  \<open>length\<close> is Python's \<open>len\<close>.
\<close>

datatype json =
    JNull
  | JBool bool
  | JInt int
  | JStr string
  | JArr "json list"
  | JObj "(string \<times> json) list"

text \<open>
  Exceptions. \<open>FeedlyError\<close> is the class of \<open>client.py\<close> (message, status code);
  \<open>TimeoutException\<close> and \<open>HTTPStatusError\<close> (status code and text of the response) are the
  two httpx classes that \<open>_handle_error\<close> tells apart; \<open>PyError\<close> is any other exception, by
  class and \<open>str(e)\<close>.
\<close>

datatype pyclass =
    ValueError
  | OSError
  | OverflowError
  | TypeError
  | AttributeError
  | IndexError
  | KeyError
  | JSONDecodeError
  | OtherClass string

datatype exn =
    FeedlyError string "int option"
  | TimeoutException
  | HTTPStatusError int string
  | PyError pyclass string

fun class_name :: "pyclass \<Rightarrow> string" where
  "class_name ValueError = ''ValueError''"
| "class_name OSError = ''OSError''"
| "class_name OverflowError = ''OverflowError''"
| "class_name TypeError = ''TypeError''"
| "class_name AttributeError = ''AttributeError''"
| "class_name IndexError = ''IndexError''"
| "class_name KeyError = ''KeyError''"
| "class_name JSONDecodeError = ''JSONDecodeError''"
| "class_name (OtherClass n) = n"

text \<open>Sequencing of steps that may raise: the first exception ends the computation.\<close>

definition bnd :: "exn + 'a \<Rightarrow> ('a \<Rightarrow> exn + 'b) \<Rightarrow> exn + 'b" where
  "bnd m f = (case m of Inl e \<Rightarrow> Inl e | Inr v \<Rightarrow> f v)"

primrec mapM :: "('a \<Rightarrow> exn + 'b) \<Rightarrow> 'a list \<Rightarrow> exn + 'b list" where
  "mapM f [] = Inr []"
| "mapM f (x # xs) = bnd (f x) (\<lambda>y. bnd (mapM f xs) (\<lambda>ys. Inr (y # ys)))"

subsection \<open>Built-in operations on decoded JSON\<close>

fun type_name :: "json \<Rightarrow> string" where
  "type_name JNull = ''NoneType''"
| "type_name (JBool b) = ''bool''"
| "type_name (JInt n) = ''int''"
| "type_name (JStr s) = ''str''"
| "type_name (JArr xs) = ''list''"
| "type_name (JObj kvs) = ''dict''"

fun py_truthy :: "json \<Rightarrow> bool" where
  "py_truthy JNull = False"
| "py_truthy (JBool b) = b"
| "py_truthy (JInt n) = (n \<noteq> 0)"
| "py_truthy (JStr s) = (s \<noteq> [])"
| "py_truthy (JArr xs) = (xs \<noteq> [])"
| "py_truthy (JObj kvs) = (kvs \<noteq> [])"

fun str_nat :: "nat \<Rightarrow> string" where
  "str_nat n = (if n < 10 then [''0123456789'' ! n]
                else str_nat (n div 10) @ [''0123456789'' ! (n mod 10)])"

definition str_int :: "int \<Rightarrow> string" where
  "str_int i = (if i < 0 then CHR ''-'' # str_nat (nat (- i)) else str_nat (nat i))"

definition hex_lower :: "nat \<Rightarrow> char" where
  "hex_lower n = ''0123456789abcdef'' ! (n mod 16)"

definition hex_upper :: "nat \<Rightarrow> char" where
  "hex_upper n = ''0123456789ABCDEF'' ! (n mod 16)"

text \<open>\<open>sep.join(xs)\<close> on a list of \<open>str\<close>.\<close>

fun py_join :: "string \<Rightarrow> string list \<Rightarrow> string" where
  "py_join sep [] = []"
| "py_join sep [x] = x"
| "py_join sep (x # y # ys) = x @ sep @ py_join sep (y # ys)"

text \<open>
  \<open>repr\<close> of a \<open>str\<close>: single quotes unless the text holds a single quote and no double quote;
  the quote and the backslash are escaped, tab, newline and carriage return are written
  \<open>\t\<close>, \<open>\n\<close>, \<open>\r\<close>, and every other character that is not printable is written \<open>\xNN\<close>.
\<close>

definition repr_char :: "char \<Rightarrow> char \<Rightarrow> string" where
  "repr_char q c =
     (let n = (of_char c :: nat) in
      if c = q \<or> c = CHR 0x5C then [CHR 0x5C, c]
      else if n = 9 then [CHR 0x5C, CHR ''t'']
      else if n = 10 then [CHR 0x5C, CHR ''n'']
      else if n = 13 then [CHR 0x5C, CHR ''r'']
      else if n < 32 \<or> n = 127 \<or> (128 \<le> n \<and> n \<le> 160) \<or> n = 173
        then [CHR 0x5C, CHR ''x'', hex_lower (n div 16), hex_lower n]
      else [c])"

definition repr_str :: "string \<Rightarrow> string" where
  "repr_str s =
     (let q = (if CHR 0x27 \<in> set s \<and> CHR 0x22 \<notin> set s then CHR 0x22 else CHR 0x27)
      in [q] @ concat (map (repr_char q) s) @ [q])"

fun py_repr :: "json \<Rightarrow> string"
and py_repr_list :: "json list \<Rightarrow> string list"
and py_repr_items :: "(string \<times> json) list \<Rightarrow> string list" where
  "py_repr JNull = ''None''"
| "py_repr (JBool b) = (if b then ''True'' else ''False'')"
| "py_repr (JInt n) = str_int n"
| "py_repr (JStr s) = repr_str s"
| "py_repr (JArr xs) = ''['' @ py_join '', '' (py_repr_list xs) @ '']''"
| "py_repr (JObj kvs) = ''{'' @ py_join '', '' (py_repr_items kvs) @ ''}''"
| "py_repr_list [] = []"
| "py_repr_list (x # xs) = py_repr x # py_repr_list xs"
| "py_repr_items [] = []"
| "py_repr_items (kv # kvs) = (repr_str (fst kv) @ '': '' @ py_repr (snd kv)) # py_repr_items kvs"

text \<open>\<open>str(x)\<close>, which an f-string applies to each value it interpolates.\<close>

fun py_str :: "json \<Rightarrow> string" where
  "py_str (JStr s) = s"
| "py_str v = py_repr v"

text \<open>
  \<open>json.dumps(v, indent=2)\<close> with the defaults \<open>ensure_ascii=True\<close> and separators
  \<open>(",", ": ")\<close>.
\<close>

definition json_escape_char :: "char \<Rightarrow> string" where
  "json_escape_char c =
     (let n = (of_char c :: nat) in
      if c = CHR 0x22 then [CHR 0x5C, CHR 0x22]
      else if c = CHR 0x5C then [CHR 0x5C, CHR 0x5C]
      else if n = 10 then [CHR 0x5C, CHR ''n'']
      else if n = 13 then [CHR 0x5C, CHR ''r'']
      else if n = 9 then [CHR 0x5C, CHR ''t'']
      else if n = 8 then [CHR 0x5C, CHR ''b'']
      else if n = 12 then [CHR 0x5C, CHR ''f'']
      else if 32 \<le> n \<and> n \<le> 126 then [c]
      else [CHR 0x5C, CHR ''u'', CHR ''0'', CHR ''0'', hex_lower (n div 16), hex_lower n])"

definition json_quote :: "string \<Rightarrow> string" where
  "json_quote s = [CHR 0x22] @ concat (map json_escape_char s) @ [CHR 0x22]"

definition newline_indent :: "nat \<Rightarrow> string" where
  "newline_indent level = CHR 0x0A # replicate (2 * level) CHR '' ''"

fun json_dumps_at :: "nat \<Rightarrow> json \<Rightarrow> string"
and json_dumps_list :: "nat \<Rightarrow> json list \<Rightarrow> string list"
and json_dumps_items :: "nat \<Rightarrow> (string \<times> json) list \<Rightarrow> string list" where
  "json_dumps_at level JNull = ''null''"
| "json_dumps_at level (JBool b) = (if b then ''true'' else ''false'')"
| "json_dumps_at level (JInt n) = str_int n"
| "json_dumps_at level (JStr s) = json_quote s"
| "json_dumps_at level (JArr xs) =
     (if xs = [] then ''[]''
      else ''['' @ newline_indent (Suc level)
           @ py_join ('','' @ newline_indent (Suc level)) (json_dumps_list (Suc level) xs)
           @ newline_indent level @ '']'')"
| "json_dumps_at level (JObj kvs) =
     (if kvs = [] then ''{}''
      else ''{'' @ newline_indent (Suc level)
           @ py_join ('','' @ newline_indent (Suc level)) (json_dumps_items (Suc level) kvs)
           @ newline_indent level @ ''}'')"
| "json_dumps_list level [] = []"
| "json_dumps_list level (x # xs) = json_dumps_at level x # json_dumps_list level xs"
| "json_dumps_items level [] = []"
| "json_dumps_items level (kv # kvs) =
     (json_quote (fst kv) @ '': '' @ json_dumps_at level (snd kv)) # json_dumps_items level kvs"

definition json_dumps :: "json \<Rightarrow> string" where
  "json_dumps v = json_dumps_at 0 v"

fun is_substring :: "string \<Rightarrow> string \<Rightarrow> bool" where
  "is_substring sub [] = (sub = [])"
| "is_substring sub (c # cs) = (prefix sub (c # cs) \<or> is_substring sub cs)"

text \<open>
  \<open>s.split(sep)\<close> for a separator that is not empty: the separator is searched from the left,
  and the search goes on after each occurrence found. \<open>skip\<close> counts the characters of an
  occurrence that are still to be passed over, \<open>cur\<close> holds the piece being read, reversed.
\<close>

fun py_split_go :: "string \<Rightarrow> nat \<Rightarrow> string \<Rightarrow> string \<Rightarrow> string list" where
  "py_split_go sep skip cur [] = [rev cur]"
| "py_split_go sep skip cur (c # cs) =
     (if 0 < skip then py_split_go sep (skip - 1) cur cs
      else if prefix sep (c # cs) then rev cur # py_split_go sep (length sep - 1) [] cs
      else py_split_go sep 0 (c # cur) cs)"

definition py_split :: "string \<Rightarrow> string \<Rightarrow> string list" where
  "py_split sep s = py_split_go sep 0 [] s"

text \<open>A name between single quotes, as the interpreter's messages print a type.\<close>

definition sq :: "string \<Rightarrow> string" where
  "sq s = [CHR 0x27] @ s @ [CHR 0x27]"

text \<open>\<open>x.get(key, default)\<close>: only a \<open>dict\<close> has the method.\<close>

fun dict_get :: "json \<Rightarrow> string \<Rightarrow> json \<Rightarrow> exn + json" where
  "dict_get (JObj kvs) k d = Inr (case map_of kvs k of None \<Rightarrow> d | Some v \<Rightarrow> v)"
| "dict_get v k d =
     Inl (PyError AttributeError (sq (type_name v) @ '' object has no attribute '' @ sq ''get''))"

text \<open>\<open>key in x\<close> for a \<open>str\<close> key: membership in a dict's keys, in a list, or as a substring.\<close>

fun py_in :: "string \<Rightarrow> json \<Rightarrow> exn + bool" where
  "py_in k (JObj kvs) = Inr (k \<in> set (map fst kvs))"
| "py_in k (JArr xs) = Inr (JStr k \<in> set xs)"
| "py_in k (JStr s) = Inr (is_substring k s)"
| "py_in k v =
     Inl (PyError TypeError (''argument of type '' @ sq (type_name v) @ '' is not iterable''))"

text \<open>\<open>x[key]\<close> for a \<open>str\<close> key.\<close>

fun py_getitem :: "json \<Rightarrow> string \<Rightarrow> exn + json" where
  "py_getitem (JObj kvs) k =
     (case map_of kvs k of None \<Rightarrow> Inl (PyError KeyError (repr_str k)) | Some v \<Rightarrow> Inr v)"
| "py_getitem (JArr xs) k =
     Inl (PyError TypeError ''list indices must be integers or slices, not str'')"
| "py_getitem (JStr s) k =
     Inl (PyError TypeError (''string indices must be integers, not '' @ sq ''str''))"
| "py_getitem v k =
     Inl (PyError TypeError (sq (type_name v) @ '' object is not subscriptable''))"

text \<open>\<open>x[0]\<close>.\<close>

fun py_first :: "json \<Rightarrow> exn + json" where
  "py_first (JArr []) = Inl (PyError IndexError ''list index out of range'')"
| "py_first (JArr (x # xs)) = Inr x"
| "py_first (JStr []) = Inl (PyError IndexError ''string index out of range'')"
| "py_first (JStr (c # cs)) = Inr (JStr [c])"
| "py_first (JObj kvs) = Inl (PyError KeyError ''0'')"
| "py_first v = Inl (PyError TypeError (sq (type_name v) @ '' object is not subscriptable''))"

fun py_len :: "json \<Rightarrow> exn + nat" where
  "py_len (JStr s) = Inr (length s)"
| "py_len (JArr xs) = Inr (length xs)"
| "py_len (JObj kvs) = Inr (length kvs)"
| "py_len v = Inl (PyError TypeError (''object of type '' @ sq (type_name v) @ '' has no len()''))"

text \<open>The elements a \<open>for\<close> loop visits: a dict gives its keys, a \<open>str\<close> its characters.\<close>

fun py_iter :: "json \<Rightarrow> exn + json list" where
  "py_iter (JArr xs) = Inr xs"
| "py_iter (JObj kvs) = Inr (map (\<lambda>kv. JStr (fst kv)) kvs)"
| "py_iter (JStr s) = Inr (map (\<lambda>c. JStr [c]) s)"
| "py_iter v = Inl (PyError TypeError (sq (type_name v) @ '' object is not iterable''))"

text \<open>\<open>sep.join(xs)\<close> on arbitrary values: every item has to be a \<open>str\<close>.\<close>

fun join_checked :: "nat \<Rightarrow> json list \<Rightarrow> exn + string list" where
  "join_checked i [] = Inr []"
| "join_checked i (JStr s # xs) = bnd (join_checked (Suc i) xs) (\<lambda>ys. Inr (s # ys))"
| "join_checked i (v # xs) =
     Inl (PyError TypeError (''sequence item '' @ str_nat i @ '': expected str instance, ''
                             @ type_name v @ '' found''))"

definition py_join_values :: "string \<Rightarrow> json list \<Rightarrow> exn + string" where
  "py_join_values sep xs = bnd (join_checked 0 xs) (\<lambda>ys. Inr (py_join sep ys))"

text \<open>\<open>s[:k]\<close>: a negative \<open>k\<close> counts from the end.\<close>

definition py_slice_to :: "int \<Rightarrow> 'a list \<Rightarrow> 'a list" where
  "py_slice_to k xs = (if 0 \<le> k then take (nat k) xs else take (nat (int (length xs) + k)) xs)"

section \<open>constants.py\<close>

definition API_BASE_URL :: string where
  "API_BASE_URL = ''https://cloud.feedly.com/v3''"

definition CHARACTER_LIMIT :: nat where
  "CHARACTER_LIMIT = 25000"

definition USER_AGENT :: string where
  "USER_AGENT = ''Mozilla/5.0 (Windows NT 10.0; Win64; x64) ''
              @ ''AppleWebKit/537.36 (KHTML, like Gecko) ''
              @ ''Chrome/120.0.0.0 Safari/537.36''"

section \<open>server.py: the formatters\<close>

text \<open>\<open>_handle_error\<close> (server.py, lines 37-45).\<close>

fun handle_error :: "exn \<Rightarrow> string" where
  "handle_error (FeedlyError message status) = ''Error: '' @ message"
| "handle_error TimeoutException = ''Error: Request timed out. Try again.''"
| "handle_error (HTTPStatusError status body) = ''Error: HTTP '' @ str_int status @ '': '' @ body"
| "handle_error (PyError c msg) = ''Error: '' @ class_name c @ '': '' @ msg"

text \<open>\<open>_truncate_response\<close> (server.py, lines 48-52).\<close>

definition truncation_notice :: string where
  "truncation_notice = ''\<newline>\<newline>... [Response truncated at 25000 characters]''"

definition truncate_response :: "string \<Rightarrow> string" where
  "truncate_response content =
     (if length content \<le> CHARACTER_LIMIT then content
      else py_slice_to (int CHARACTER_LIMIT - 50) content @ truncation_notice)"

text \<open>
  \<open>_format_timestamp\<close> (server.py, lines 55-63). The local time zone and the C library are
  the platform's: \<open>clock n\<close> is what
  \<open>datetime.fromtimestamp(n / 1000).strftime("%Y-%m-%d %H:%M")\<close> gives on it for the integer
  \<open>n\<close>, a text or the exception raised (the library documents \<open>ValueError\<close>, \<open>OSError\<close> and
  \<open>OverflowError\<close>). Before that, the true division \<open>n / 1000\<close> of an \<open>int\<close> raises
  \<open>OverflowError\<close> when the quotient rounds to no finite double, and \<open>TypeError\<close> on a value
  that is not a number; a \<open>bool\<close> is the integer 0 or 1.
\<close>

definition division_overflows :: "int \<Rightarrow> bool" where
  "division_overflows n = (1000 * (2 ^ 1024 - 2 ^ 970) \<le> \<bar>n\<bar>)"

fun caught_by_format_timestamp :: "exn \<Rightarrow> bool" where
  "caught_by_format_timestamp (PyError ValueError msg) = True"
| "caught_by_format_timestamp (PyError JSONDecodeError msg) = True"
| "caught_by_format_timestamp (PyError OSError msg) = True"
| "caught_by_format_timestamp e = False"

definition format_epoch_ms :: "(int \<Rightarrow> exn + string) \<Rightarrow> int \<Rightarrow> exn + string" where
  "format_epoch_ms clock n =
     (if division_overflows n
      then Inl (PyError OverflowError ''integer division result too large for a float'')
      else (case clock n of
              Inr s \<Rightarrow> Inr s
            | Inl e \<Rightarrow> if caught_by_format_timestamp e then Inr ''Unknown'' else Inl e))"

fun format_timestamp :: "(int \<Rightarrow> exn + string) \<Rightarrow> json \<Rightarrow> exn + string" where
  "format_timestamp clock JNull = Inr ''Unknown''"
| "format_timestamp clock (JInt n) = format_epoch_ms clock n"
| "format_timestamp clock (JBool b) = format_epoch_ms clock (if b then 1 else 0)"
| "format_timestamp clock v =
     Inl (PyError TypeError (''unsupported operand type(s) for /: '' @ sq (type_name v)
                             @ '' and '' @ sq ''int''))"

text \<open>
  \<open>_truncate_text\<close> (server.py, lines 66-72). The argument is whatever the entry holds: of a
  list or dict that passes the length test the function returns the value itself. On a longer
  list the concatenation with a \<open>str\<close> raises, and on a longer dict the slice does: a slice
  cannot be hashed (CPython up to 3.11; from 3.12 on it can, and the lookup raises \<open>KeyError\<close>).
\<close>

fun truncate_text :: "json \<Rightarrow> int \<Rightarrow> exn + json" where
  "truncate_text JNull max_length = Inr (JStr [])"
| "truncate_text (JStr s) max_length =
     Inr (JStr (if int (length s) \<le> max_length then s
                else py_slice_to (max_length - 3) s @ ''...''))"
| "truncate_text (JArr xs) max_length =
     (if int (length xs) \<le> max_length then Inr (JArr xs)
      else Inl (PyError TypeError (''can only concatenate list (not '' @ [CHR 0x22] @ ''str''
                                   @ [CHR 0x22] @ '') to list'')))"
| "truncate_text (JObj kvs) max_length =
     (if int (length kvs) \<le> max_length then Inr (JObj kvs)
      else Inl (PyError TypeError (''unhashable type: '' @ sq ''slice'')))"
| "truncate_text v max_length =
     Inl (PyError TypeError (''object of type '' @ sq (type_name v) @ '' has no len()''))"

text \<open>\<open>_get_article_content\<close> (server.py, lines 75-86).\<close>

definition get_article_content :: "json \<Rightarrow> exn + json" where
  "get_article_content entry =
     bnd (py_in ''fullContent'' entry) (\<lambda>has_full.
       if has_full then py_getitem entry ''fullContent''
       else
         bnd (py_in ''content'' entry) (\<lambda>has_content.
         bnd (if has_content
              then bnd (py_getitem entry ''content'') (\<lambda>c.
                   bnd (dict_get c ''content'' JNull) (\<lambda>body. Inr (py_truthy body)))
              else Inr False) (\<lambda>use_content.
           if use_content
           then bnd (py_getitem entry ''content'') (\<lambda>c. py_getitem c ''content'')
           else
             bnd (py_in ''summary'' entry) (\<lambda>has_summary.
             bnd (if has_summary
                  then bnd (py_getitem entry ''summary'') (\<lambda>c.
                       bnd (dict_get c ''content'' JNull) (\<lambda>body. Inr (py_truthy body)))
                  else Inr False) (\<lambda>use_summary.
               if use_summary
               then bnd (py_getitem entry ''summary'') (\<lambda>c. py_getitem c ''content'')
               else Inr (JStr []))))))"

text \<open>\<open>_format_entry_markdown\<close> (server.py, lines 89-114).\<close>

definition format_entry_markdown :: "(int \<Rightarrow> exn + string) \<Rightarrow> json \<Rightarrow> bool \<Rightarrow> exn + string" where
  "format_entry_markdown clock entry include_content =
     bnd (dict_get entry ''title'' (JStr ''Untitled'')) (\<lambda>title.
     bnd (dict_get entry ''author'' (JStr ''Unknown author'')) (\<lambda>author.
     bnd (dict_get entry ''published'' JNull) (\<lambda>published_ms.
     bnd (format_timestamp clock published_ms) (\<lambda>published.
     bnd (dict_get entry ''alternate'' (JArr [JObj []])) (\<lambda>alternate.
     bnd (py_first alternate) (\<lambda>first_alternate.
     bnd (dict_get entry ''canonicalUrl'' (JStr [])) (\<lambda>canonical.
     bnd (dict_get first_alternate ''href'' canonical) (\<lambda>url.
     bnd (dict_get entry ''id'' (JStr [])) (\<lambda>entry_id.
     bnd (dict_get entry ''unread'' (JBool False)) (\<lambda>unread.
     bnd (get_article_content entry) (\<lambda>content.
     bnd (truncate_text content 300) (\<lambda>summary.
       Inr (py_join ''\<newline>''
         ([''### '' @ py_str title,
           ''**Author:** '' @ py_str author @ '' | **Published:** '' @ published
             @ '' | **Unread:** '' @ (if py_truthy unread then ''Yes'' else ''No''),
           ''**ID:** `'' @ py_str entry_id @ ''`'']
          @ (if py_truthy url
             then [''**URL:** ['' @ py_str url @ '']('' @ py_str url @ '')''] else [])
          @ (if include_content \<and> py_truthy content
             then [''\<newline>**Content:**\<newline>'' @ py_str content]
             else if py_truthy summary
             then [''\<newline>**Summary:** '' @ py_str summary] else [])))))))))))))))"

text \<open>\<open>_format_entries_markdown\<close> (server.py, lines 117-123).\<close>

definition format_entries_markdown :: "(int \<Rightarrow> exn + string) \<Rightarrow> json \<Rightarrow> bool \<Rightarrow> exn + string" where
  "format_entries_markdown clock entries include_content =
     (if \<not> py_truthy entries then Inr ''No articles found.''
      else bnd (py_iter entries) (\<lambda>es.
           bnd (mapM (\<lambda>entry. format_entry_markdown clock entry include_content) es) (\<lambda>blocks.
             Inr (py_join ''\<newline>\<newline>---\<newline>\<newline>'' blocks))))"

section \<open>server.py: the formatters of listings\<close>

text \<open>\<open>ResponseFormat\<close> (models.py, lines 8-12).\<close>

datatype ResponseFormat = MARKDOWN | JSON

text \<open>The dict that \<open>_format_stream_contents\<close> serialises in JSON mode (lines 132-134).\<close>

definition stream_contents_result :: "json \<Rightarrow> nat \<Rightarrow> json \<Rightarrow> json" where
  "stream_contents_result items n continuation =
     JObj ([(''items'', items), (''count'', JInt (int n))]
           @ (if py_truthy continuation then [(''continuation'', continuation)] else []))"

text \<open>\<open>_format_stream_contents\<close> (server.py, lines 126-144).\<close>

definition format_stream_contents ::
  "(int \<Rightarrow> exn + string) \<Rightarrow> json \<Rightarrow> ResponseFormat \<Rightarrow> exn + string" where
  "format_stream_contents clock data fmt =
     bnd (dict_get data ''items'' (JArr [])) (\<lambda>items.
     bnd (dict_get data ''continuation'' JNull) (\<lambda>continuation.
       if fmt = JSON
       then bnd (py_len items) (\<lambda>n.
              Inr (json_dumps (stream_contents_result items n continuation)))
       else bnd (py_len items) (\<lambda>n.
            bnd (format_entries_markdown clock items False) (\<lambda>body.
              Inr (py_join ''\<newline>''
                ([''## Articles ('' @ str_nat n @ '' found)\<newline>'', body]
                 @ (if py_truthy continuation
                    then [''\<newline>\<newline>---\<newline>**More articles available.** Use continuation token: `''
                          @ py_str continuation @ ''`'']
                    else [])))))))"

text \<open>\<open>_format_profile_markdown\<close> (server.py, lines 147-156).\<close>

definition format_profile_markdown :: "json \<Rightarrow> exn + string" where
  "format_profile_markdown profile =
     bnd (dict_get profile ''id'' (JStr ''Unknown'')) (\<lambda>user_id.
     bnd (dict_get profile ''email'' (JStr ''Not available'')) (\<lambda>email.
     bnd (dict_get profile ''givenName'' (JStr ''Not available'')) (\<lambda>given_name.
     bnd (dict_get profile ''fullName'' given_name) (\<lambda>full_name.
     bnd (dict_get profile ''locale'' (JStr ''Not available'')) (\<lambda>locale.
     bnd (dict_get profile ''login'' (JStr ''Not available'')) (\<lambda>login.
       Inr (''## Feedly Profile\<newline>\<newline>''
            @ ''**User ID:** `'' @ py_str user_id @ ''`\<newline>''
            @ ''**Email:** '' @ py_str email @ ''\<newline>''
            @ ''**Name:** '' @ py_str full_name @ ''\<newline>''
            @ ''**Locale:** '' @ py_str locale @ ''\<newline>''
            @ ''**Login:** '' @ py_str login @ ''\<newline>'')))))))"

text \<open>The body of the loop of \<open>_format_subscriptions_markdown\<close> (lines 166-177).\<close>

definition subscription_lines :: "json \<Rightarrow> exn + string list" where
  "subscription_lines sub =
     bnd (dict_get sub ''title'' (JStr ''Untitled'')) (\<lambda>title.
     bnd (dict_get sub ''id'' (JStr [])) (\<lambda>feed_id.
     bnd (dict_get sub ''website'' (JStr [])) (\<lambda>website.
     bnd (dict_get sub ''categories'' (JArr [])) (\<lambda>cats.
     bnd (py_iter cats) (\<lambda>cs.
     bnd (mapM (\<lambda>c. dict_get c ''label'' (JStr [])) cs) (\<lambda>categories.
     bnd (if categories \<noteq> [] then py_join_values '', '' categories
          else Inr ''Uncategorized'') (\<lambda>cat_str.
       Inr ([''### '' @ py_str title,
             ''**Feed ID:** `'' @ py_str feed_id @ ''`'']
            @ (if py_truthy website
               then [''**Website:** ['' @ py_str website @ '']('' @ py_str website @ '')'']
               else [])
            @ [''**Categories:** '' @ cat_str, []]))))))))"

text \<open>\<open>_format_subscriptions_markdown\<close> (server.py, lines 159-179).\<close>

definition format_subscriptions_markdown :: "json \<Rightarrow> exn + string" where
  "format_subscriptions_markdown subscriptions =
     (if \<not> py_truthy subscriptions then Inr ''No subscriptions found.''
      else bnd (py_len subscriptions) (\<lambda>n.
           bnd (py_iter subscriptions) (\<lambda>subs.
           bnd (mapM subscription_lines subs) (\<lambda>blocks.
             Inr (py_join ''\<newline>''
               ((''## Subscriptions ('' @ str_nat n @ '' feeds)\<newline>'') # concat blocks))))))"

text \<open>\<open>_format_categories_markdown\<close> (server.py, lines 182-194), and the body of its loop.\<close>

definition category_lines :: "json \<Rightarrow> exn + string list" where
  "category_lines cat =
     bnd (dict_get cat ''label'' (JStr ''Unlabeled'')) (\<lambda>label.
     bnd (dict_get cat ''id'' (JStr [])) (\<lambda>cat_id.
       Inr [''- **'' @ py_str label @ ''**'', ''  - ID: `'' @ py_str cat_id @ ''`'']))"

definition format_categories_markdown :: "json \<Rightarrow> exn + string" where
  "format_categories_markdown categories =
     (if \<not> py_truthy categories then Inr ''No categories found.''
      else bnd (py_len categories) (\<lambda>n.
           bnd (py_iter categories) (\<lambda>cats.
           bnd (mapM category_lines cats) (\<lambda>blocks.
             Inr (py_join ''\<newline>''
               ((''## Categories ('' @ str_nat n @ '' found)\<newline>'') # concat blocks))))))"

text \<open>Methods of \<open>str\<close> called on a value that need not be one.\<close>

definition no_attribute :: "json \<Rightarrow> string \<Rightarrow> exn" where
  "no_attribute v name =
     PyError AttributeError (sq (type_name v) @ '' object has no attribute '' @ sq name)"

fun str_split :: "json \<Rightarrow> string \<Rightarrow> exn + string list" where
  "str_split (JStr s) sep = Inr (py_split sep s)"
| "str_split v sep = Inl (no_attribute v ''split'')"

fun str_startswith :: "json \<Rightarrow> string \<Rightarrow> exn + bool" where
  "str_startswith (JStr s) p = Inr (prefix p s)"
| "str_startswith v p = Inl (no_attribute v ''startswith'')"

text \<open>\<open>_format_tags_markdown\<close> (server.py, lines 197-209), and the body of its loop.\<close>

definition tag_lines :: "json \<Rightarrow> exn + string list" where
  "tag_lines tag =
     bnd (dict_get tag ''id'' (JStr [])) (\<lambda>id_for_default.
     bnd (str_split id_for_default ''/'') (\<lambda>parts.
     bnd (dict_get tag ''label'' (JStr (last parts))) (\<lambda>label.
     bnd (dict_get tag ''id'' (JStr [])) (\<lambda>tag_id.
       Inr [''- **'' @ py_str label @ ''**'', ''  - ID: `'' @ py_str tag_id @ ''`'']))))"

definition format_tags_markdown :: "json \<Rightarrow> exn + string" where
  "format_tags_markdown tags =
     (if \<not> py_truthy tags then Inr ''No tags found.''
      else bnd (py_len tags) (\<lambda>n.
           bnd (py_iter tags) (\<lambda>ts.
           bnd (mapM tag_lines ts) (\<lambda>blocks.
             Inr (py_join ''\<newline>''
               ((''## Tags ('' @ str_nat n @ '' found)\<newline>'') # concat blocks))))))"

text \<open>
  \<open>==\<close> on decoded JSON: a \<open>bool\<close> equals the integer 0 or 1, lists are equal item by item,
  and dicts (whose keys are distinct) when they have the same keys with equal values, in any
  order.
\<close>

fun py_eq :: "json \<Rightarrow> json \<Rightarrow> bool"
and py_eq_list :: "json list \<Rightarrow> json list \<Rightarrow> bool"
and py_eq_items :: "(string \<times> json) list \<Rightarrow> (string \<times> json) list \<Rightarrow> bool" where
  "py_eq JNull b = (b = JNull)"
| "py_eq (JBool a) b =
     (case b of JBool c \<Rightarrow> a = c | JInt n \<Rightarrow> (if a then 1 else 0) = n | _ \<Rightarrow> False)"
| "py_eq (JInt m) b =
     (case b of JBool c \<Rightarrow> m = (if c then 1 else 0) | JInt n \<Rightarrow> m = n | _ \<Rightarrow> False)"
| "py_eq (JStr s) b = (b = JStr s)"
| "py_eq (JArr xs) b = (case b of JArr ys \<Rightarrow> py_eq_list xs ys | _ \<Rightarrow> False)"
| "py_eq (JObj kvs) b =
     (case b of JObj kws \<Rightarrow> length kvs = length kws \<and> py_eq_items kvs kws | _ \<Rightarrow> False)"
| "py_eq_list [] ys = (ys = [])"
| "py_eq_list (x # xs) ys =
     (case ys of [] \<Rightarrow> False | y # ys' \<Rightarrow> py_eq x y \<and> py_eq_list xs ys')"
| "py_eq_items [] kws = True"
| "py_eq_items (kv # kvs) kws =
     ((case map_of kws (fst kv) of None \<Rightarrow> False | Some v \<Rightarrow> py_eq (snd kv) v)
      \<and> py_eq_items kvs kws)"

text \<open>
  \<open>a < b\<close>: integers (a \<open>bool\<close> is 0 or 1) are ordered as numbers, \<open>str\<close> by code point, and
  lists by the first pair of items that are not equal, a proper prefix being the smaller. Any
  other pair of operands raises \<open>TypeError\<close>.
\<close>

fun int_key :: "json \<Rightarrow> int option" where
  "int_key (JInt n) = Some n"
| "int_key (JBool b) = Some (if b then 1 else 0)"
| "int_key v = None"

definition not_supported :: "json \<Rightarrow> json \<Rightarrow> exn" where
  "not_supported a b =
     PyError TypeError (sq ''<'' @ '' not supported between instances of '' @ sq (type_name a)
                        @ '' and '' @ sq (type_name b))"

fun py_lt :: "json \<Rightarrow> json \<Rightarrow> exn + bool"
and py_lt_list :: "json list \<Rightarrow> json list \<Rightarrow> exn + bool" where
  "py_lt (JArr xs) b = (case b of JArr ys \<Rightarrow> py_lt_list xs ys | _ \<Rightarrow> Inl (not_supported (JArr xs) b))"
| "py_lt (JStr s) b = (case b of JStr t \<Rightarrow> Inr (s < t) | _ \<Rightarrow> Inl (not_supported (JStr s) b))"
| "py_lt (JInt m) b =
     (case int_key b of Some n \<Rightarrow> Inr (m < n) | None \<Rightarrow> Inl (not_supported (JInt m) b))"
| "py_lt (JBool c) b =
     (case int_key b of Some n \<Rightarrow> Inr ((if c then 1 else 0) < n)
                      | None \<Rightarrow> Inl (not_supported (JBool c) b))"
| "py_lt JNull b = Inl (not_supported JNull b)"
| "py_lt (JObj kvs) b = Inl (not_supported (JObj kvs) b)"
| "py_lt_list [] ys = Inr (ys \<noteq> [])"
| "py_lt_list (x # xs) ys =
     (case ys of [] \<Rightarrow> Inr False
               | y # ys' \<Rightarrow> if py_eq x y then py_lt_list xs ys' else py_lt x y)"

text \<open>
  \<open>sorted(counts, key=..., reverse=True)\<close> on the items paired with their keys, as CPython
  (\<open>list.sort\<close>, up to version 3.12) runs it. A list of fewer than two items is returned as
  it is. Otherwise the list is reversed, sorted in ascending order and reversed again, which
  keeps items of equal key in their order. The ascending sort first takes the run the list
  starts with, \<open>count_run\<close>: the items as long as none is smaller than the one before it, or,
  when the second item is smaller than the first, as long as each is smaller than the one
  before it, and that run is then reversed. Every item after the run is inserted into the
  sorted part at the place a binary search gives, after the items that are not greater,
  \<open>binarysort\<close>. Each comparison is \<open>x < y\<close> on two keys, and the first that raises ends the
  sort with its \<open>TypeError\<close>. A list of 64 items or more is sorted in several such runs that are
  merged: the result is the same and so is whether a \<open>TypeError\<close> is raised, but the failing
  comparison can be another one, so that the operands named in the message can differ from the
  ones given here.
\<close>

primrec run_length :: "bool \<Rightarrow> json \<Rightarrow> json list \<Rightarrow> exn + nat" where
  "run_length descending prev [] = Inr 0"
| "run_length descending prev (k # ks) =
     bnd (py_lt k prev) (\<lambda>lt.
       if lt = descending then bnd (run_length descending k ks) (\<lambda>n. Inr (Suc n))
       else Inr 0)"

fun count_run :: "json list \<Rightarrow> exn + bool \<times> nat" where
  "count_run (k0 # k1 # ks) =
     bnd (py_lt k1 k0) (\<lambda>descending.
     bnd (run_length descending k1 ks) (\<lambda>n. Inr (descending, n + 2)))"
| "count_run ks = Inr (False, length ks)"

text \<open>
  The binary search of \<open>binarysort\<close> on the keys of the sorted part between \<open>l\<close> and \<open>r\<close>, here
  the list \<open>ks\<close>: the place of the pivot, counted from \<open>l\<close>.
\<close>

fun bisect :: "json \<Rightarrow> json list \<Rightarrow> exn + nat" where
  "bisect pivot ks =
     (if ks = [] then Inr 0
      else (case py_lt pivot (ks ! (length ks div 2)) of
              Inl e \<Rightarrow> Inl e
            | Inr lt \<Rightarrow>
                if lt then bisect pivot (take (length ks div 2) ks)
                else (case bisect pivot (drop (Suc (length ks div 2)) ks) of
                        Inl e \<Rightarrow> Inl e
                      | Inr i \<Rightarrow> Inr (Suc (length ks div 2) + i))))"

declare bisect.simps [simp del]

primrec binarysort :: "(json \<times> 'a) list \<Rightarrow> (json \<times> 'a) list \<Rightarrow> exn + (json \<times> 'a) list" where
  "binarysort acc [] = Inr acc"
| "binarysort acc (kx # rest) =
     bnd (bisect (fst kx) (map fst acc)) (\<lambda>i.
       binarysort (take i acc @ kx # drop i acc) rest)"

definition py_sorted_reverse :: "(json \<times> 'a) list \<Rightarrow> exn + 'a list" where
  "py_sorted_reverse kxs =
     (if length kxs < 2 then Inr (map snd kxs)
      else bnd (count_run (map fst (rev kxs))) (\<lambda>run.
           bnd (binarysort (if fst run then rev (take (snd run) (rev kxs))
                            else take (snd run) (rev kxs))
                           (drop (snd run) (rev kxs))) (\<lambda>ascending.
             Inr (map snd (rev ascending)))))"

text \<open>The name and the kind of a stream, read off its identifier (lines 227-239).\<close>

definition stream_name_and_type :: "json \<Rightarrow> exn + json \<times> string" where
  "stream_name_and_type stream_id =
     bnd (py_in ''/category/'' stream_id) (\<lambda>is_category.
       if is_category
       then bnd (str_split stream_id ''/category/'') (\<lambda>parts.
              Inr (JStr (last parts), ''Category''))
       else
         bnd (py_in ''/tag/'' stream_id) (\<lambda>is_tag.
           if is_tag
           then bnd (str_split stream_id ''/tag/'') (\<lambda>parts. Inr (JStr (last parts), ''Tag''))
           else
             bnd (str_startswith stream_id ''feed/'') (\<lambda>is_feed.
               if is_feed
               then (case stream_id of JStr s \<Rightarrow> Inr (JStr (drop 5 s), ''Feed'')
                                     | v \<Rightarrow> Inr (v, ''Feed''))
               else Inr (stream_id, ''Stream''))))"

text \<open>The body of the loop of \<open>_format_unread_counts_markdown\<close> (lines 222-242).\<close>

definition unread_count_lines :: "(int \<Rightarrow> exn + string) \<Rightarrow> json \<Rightarrow> exn + string list" where
  "unread_count_lines clock item =
     bnd (dict_get item ''id'' (JStr [])) (\<lambda>stream_id.
     bnd (dict_get item ''count'' (JInt 0)) (\<lambda>n.
     bnd (dict_get item ''updated'' JNull) (\<lambda>updated_ms.
     bnd (format_timestamp clock updated_ms) (\<lambda>updated.
     bnd (stream_name_and_type stream_id) (\<lambda>nt.
       Inr [''- **'' @ py_str (fst nt) @ ''** ('' @ snd nt @ ''): '' @ py_str n
              @ '' unread (updated: '' @ updated @ '')'',
            ''  - ID: `'' @ py_str stream_id @ ''`''])))))"

text \<open>\<open>_format_unread_counts_markdown\<close> (server.py, lines 212-244).\<close>

definition format_unread_counts_markdown :: "(int \<Rightarrow> exn + string) \<Rightarrow> json \<Rightarrow> exn + string" where
  "format_unread_counts_markdown clock data =
     bnd (dict_get data ''unreadcounts'' (JArr [])) (\<lambda>counts.
       if \<not> py_truthy counts then Inr ''No unread counts available.''
       else bnd (py_iter counts) (\<lambda>items.
            bnd (mapM (\<lambda>x. dict_get x ''count'' (JInt 0)) items) (\<lambda>keys.
            bnd (py_sorted_reverse (zip keys items)) (\<lambda>sorted_counts.
            bnd (mapM (unread_count_lines clock) sorted_counts) (\<lambda>blocks.
              Inr (py_join ''\<newline>'' (''## Unread Counts\<newline>'' # concat blocks)))))))"

section \<open>client.py\<close>

text \<open>
  What the process reads from outside: the environment variable \<open>FEEDLY_ACCESS_TOKEN\<close>, the
  upstream API (for each request sent, the response, or the exception that the HTTP client
  raises in its place), and the platform's local time (see \<open>format_timestamp\<close>). A response
  is its status code, its text, and what \<open>response.json()\<close> gives for it: the decoded body,
  or the exception raised when the text is not JSON. The timeout of 30 seconds is not part of
  the model; a request that times out is the exception \<open>TimeoutException\<close>.
\<close>

record http_request =
  http_method :: string
  url :: string
  query :: "(string \<times> json) list option"
  json_data :: "json option"
  headers :: "(string \<times> string) list"

record http_response =
  status_code :: int
  body_text :: string
  body_json :: "exn + json"

record world =
  env_token :: "string option"
  send :: "http_request \<Rightarrow> exn + http_response"
  local_time :: "int \<Rightarrow> exn + string"

record FeedlyClient =
  access_token :: string
  base_url :: string

text \<open>
  \<open>response.raise_for_status()\<close> of httpx: a status code outside 200..299 raises
  \<open>HTTPStatusError\<close>, which carries the response.
\<close>

definition raise_for_status :: "http_response \<Rightarrow> exn + unit" where
  "raise_for_status response =
     (if 200 \<le> status_code response \<and> status_code response \<le> 299 then Inr ()
      else Inl (HTTPStatusError (status_code response) (body_text response)))"

text \<open>
  \<open>FeedlyClient._request\<close> (client.py, lines 29-66). The result comes with the list of the
  requests sent to the network.
\<close>

definition request ::
  "world \<Rightarrow> FeedlyClient \<Rightarrow> string \<Rightarrow> string \<Rightarrow> (string \<times> json) list option \<Rightarrow> json option
   \<Rightarrow> (exn + json) \<times> http_request list" where
  "request w client meth endpoint params body =
     (let req = \<lparr>http_method = meth,
                 url = base_url client @ endpoint,
                 query = params,
                 json_data = body,
                 headers = [(''Authorization'', ''Bearer '' @ access_token client),
                            (''Accept'', ''application/json''),
                            (''Content-Type'', ''application/json''),
                            (''User-Agent'', USER_AGENT)]\<rparr>
      in (case send w req of
            Inl e \<Rightarrow> Inl e
          | Inr response \<Rightarrow>
              if status_code response = 401
                then Inl (FeedlyError ''Authentication failed. Check FEEDLY_ACCESS_TOKEN.'' (Some 401))
              else if status_code response = 403
                then Inl (FeedlyError ''Access forbidden. Check your Feedly plan.'' (Some 403))
              else if status_code response = 404
                then Inl (FeedlyError ''Resource not found. Check the ID.'' (Some 404))
              else if status_code response = 429
                then Inl (FeedlyError ''Rate limit exceeded. Wait before retrying.'' (Some 429))
              else bnd (raise_for_status response) (\<lambda>u.
                     if status_code response = 204 then Inr JNull else body_json response),
          [req]))"

text \<open>
  \<open>urllib.parse.quote(s, safe="")\<close>: letters, digits and \<open>_.-~\<close> stay, every other character is
  written as the bytes of its UTF-8 encoding, each as \<open>%XX\<close>.
\<close>

definition percent :: "nat \<Rightarrow> string" where
  "percent b = [CHR ''%'', hex_upper (b div 16), hex_upper b]"

definition quote_char :: "char \<Rightarrow> string" where
  "quote_char c =
     (let n = (of_char c :: nat) in
      if c \<in> set (''ABCDEFGHIJKLMNOPQRSTUVWXYZ'' @ ''abcdefghijklmnopqrstuvwxyz''
                   @ ''0123456789'' @ ''_.-~'') then [c]
      else if n < 128 then percent n
      else percent (192 + n div 64) @ percent (128 + n mod 64))"

definition quote :: "string \<Rightarrow> string" where
  "quote s = concat (map quote_char s)"

text \<open>The methods of \<open>FeedlyClient\<close> (client.py, lines 68-211).\<close>

definition get_profile :: "world \<Rightarrow> FeedlyClient \<Rightarrow> (exn + json) \<times> http_request list" where
  "get_profile w client = request w client ''GET'' ''/profile'' None None"

definition get_subscriptions :: "world \<Rightarrow> FeedlyClient \<Rightarrow> (exn + json) \<times> http_request list" where
  "get_subscriptions w client = request w client ''GET'' ''/subscriptions'' None None"

definition get_categories :: "world \<Rightarrow> FeedlyClient \<Rightarrow> (exn + json) \<times> http_request list" where
  "get_categories w client = request w client ''GET'' ''/categories'' None None"

definition get_tags :: "world \<Rightarrow> FeedlyClient \<Rightarrow> (exn + json) \<times> http_request list" where
  "get_tags w client = request w client ''GET'' ''/tags'' None None"

definition get_unread_counts :: "world \<Rightarrow> FeedlyClient \<Rightarrow> (exn + json) \<times> http_request list" where
  "get_unread_counts w client = request w client ''GET'' ''/markers/counts'' None None"

definition get_stream_contents ::
  "world \<Rightarrow> FeedlyClient \<Rightarrow> string \<Rightarrow> int \<Rightarrow> bool \<Rightarrow> string option \<Rightarrow> string
   \<Rightarrow> (exn + json) \<times> http_request list" where
  "get_stream_contents w client sid n unread cont order =
     request w client ''GET'' ''/streams/contents''
       (Some ([(''streamId'', JStr sid), (''count'', JInt n), (''ranked'', JStr order)]
              @ (if unread then [(''unreadOnly'', JStr ''true'')] else [])
              @ (case cont of
                   None \<Rightarrow> []
                 | Some c \<Rightarrow> if c \<noteq> [] then [(''continuation'', JStr c)] else [])))
       None"

definition get_entry :: "world \<Rightarrow> FeedlyClient \<Rightarrow> string \<Rightarrow> (exn + json) \<times> http_request list" where
  "get_entry w client eid = request w client ''GET'' (''/entries/'' @ quote eid) None None"

definition get_entries ::
  "world \<Rightarrow> FeedlyClient \<Rightarrow> string list \<Rightarrow> (exn + json) \<times> http_request list" where
  "get_entries w client ids =
     request w client ''POST'' ''/entries/.mget'' None (Some (JArr (map JStr ids)))"

text \<open>The marker methods await the request and return \<open>None\<close>.\<close>

definition discard :: "(exn + json) \<times> http_request list \<Rightarrow> (exn + unit) \<times> http_request list" where
  "discard r = (bnd (fst r) (\<lambda>v. Inr ()), snd r)"

definition mark_as_read ::
  "world \<Rightarrow> FeedlyClient \<Rightarrow> string list \<Rightarrow> (exn + unit) \<times> http_request list" where
  "mark_as_read w client ids =
     discard (request w client ''POST'' ''/markers'' None
       (Some (JObj [(''action'', JStr ''markAsRead''), (''type'', JStr ''entries''),
                    (''entryIds'', JArr (map JStr ids))])))"

definition mark_feed_as_read ::
  "world \<Rightarrow> FeedlyClient \<Rightarrow> string \<Rightarrow> int option \<Rightarrow> (exn + unit) \<times> http_request list" where
  "mark_feed_as_read w client fid cutoff =
     discard (request w client ''POST'' ''/markers'' None
       (Some (JObj ([(''action'', JStr ''markAsRead''), (''type'', JStr ''feeds''),
                     (''feedIds'', JArr [JStr fid])]
                    @ (case cutoff of None \<Rightarrow> [] | Some t \<Rightarrow> [(''asOf'', JInt t)])))))"

definition mark_category_as_read ::
  "world \<Rightarrow> FeedlyClient \<Rightarrow> string \<Rightarrow> int option \<Rightarrow> (exn + unit) \<times> http_request list" where
  "mark_category_as_read w client cid cutoff =
     discard (request w client ''POST'' ''/markers'' None
       (Some (JObj ([(''action'', JStr ''markAsRead''), (''type'', JStr ''categories''),
                     (''categoryIds'', JArr [JStr cid])]
                    @ (case cutoff of None \<Rightarrow> [] | Some t \<Rightarrow> [(''asOf'', JInt t)])))))"

definition keep_unread ::
  "world \<Rightarrow> FeedlyClient \<Rightarrow> string list \<Rightarrow> (exn + unit) \<times> http_request list" where
  "keep_unread w client ids =
     discard (request w client ''POST'' ''/markers'' None
       (Some (JObj [(''action'', JStr ''keepUnread''), (''type'', JStr ''entries''),
                    (''entryIds'', JArr (map JStr ids))])))"

section \<open>models.py: the validated inputs\<close>

datatype Ranked = newest | oldest

fun ranked_value :: "Ranked \<Rightarrow> string" where
  "ranked_value newest = ''newest''"
| "ranked_value oldest = ''oldest''"

record GetStreamContentsInput =
  stream_id :: string
  count :: int
  unread_only :: bool
  continuation :: "string option"
  ranked :: Ranked
  response_format :: ResponseFormat

record MarkAsReadInput =
  entry_ids :: "string list"

record MarkFeedAsReadInput =
  feed_id :: string
  as_of :: "int option"

record MarkCategoryAsReadInput =
  category_id :: string
  as_of :: "int option"

record GetEntryInput =
  entry_id :: string
  response_format :: ResponseFormat

record GetEntriesInput =
  entry_ids :: "string list"
  response_format :: ResponseFormat

record KeepUnreadInput =
  entry_ids :: "string list"

record SimpleResponseFormatInput =
  response_format :: ResponseFormat

text \<open>
  The constraints that models.py declares for the three inputs that hold a list of entry
  IDs, as pydantic checks them on the raw arguments of a call: a JSON object with no field
  but the declared ones (\<open>extra="forbid"\<close>), \<open>entry_ids\<close> present and a list of 1 to 1000
  items (\<open>min_length=1\<close>, \<open>max_length=1000\<close>), each a \<open>str\<close>, and \<open>response_format\<close>, where
  declared, absent or one of the two values of \<open>ResponseFormat\<close>. \<open>None\<close> stands for the
  \<open>ValidationError\<close> that pydantic raises.
\<close>

definition MAX_BATCH_SIZE :: nat where
  "MAX_BATCH_SIZE = 1000"

fun parse_str :: "json \<Rightarrow> string option" where
  "parse_str (JStr s) = Some s"
| "parse_str v = None"

fun parse_str_list :: "json list \<Rightarrow> string list option" where
  "parse_str_list [] = Some []"
| "parse_str_list (x # xs) =
     (case parse_str x of
        None \<Rightarrow> None
      | Some s \<Rightarrow> (case parse_str_list xs of None \<Rightarrow> None | Some ss \<Rightarrow> Some (s # ss)))"

definition parse_entry_ids :: "(string \<times> json) list \<Rightarrow> string list option" where
  "parse_entry_ids kvs =
     (case map_of kvs ''entry_ids'' of
        Some (JArr xs) \<Rightarrow>
          if 1 \<le> length xs \<and> length xs \<le> MAX_BATCH_SIZE then parse_str_list xs else None
      | _ \<Rightarrow> None)"

definition parse_response_format :: "(string \<times> json) list \<Rightarrow> ResponseFormat option" where
  "parse_response_format kvs =
     (case map_of kvs ''response_format'' of
        None \<Rightarrow> Some MARKDOWN
      | Some v \<Rightarrow> if v = JStr ''markdown'' then Some MARKDOWN
                  else if v = JStr ''json'' then Some JSON else None)"

fun validate_MarkAsReadInput :: "json \<Rightarrow> MarkAsReadInput option" where
  "validate_MarkAsReadInput (JObj kvs) =
     (if \<not> list_all (\<lambda>kv. fst kv = ''entry_ids'') kvs then None
      else (case parse_entry_ids kvs of
              None \<Rightarrow> None
            | Some ids \<Rightarrow> Some \<lparr>MarkAsReadInput.entry_ids = ids\<rparr>))"
| "validate_MarkAsReadInput v = None"

fun validate_KeepUnreadInput :: "json \<Rightarrow> KeepUnreadInput option" where
  "validate_KeepUnreadInput (JObj kvs) =
     (if \<not> list_all (\<lambda>kv. fst kv = ''entry_ids'') kvs then None
      else (case parse_entry_ids kvs of
              None \<Rightarrow> None
            | Some ids \<Rightarrow> Some \<lparr>KeepUnreadInput.entry_ids = ids\<rparr>))"
| "validate_KeepUnreadInput v = None"

fun validate_GetEntriesInput :: "json \<Rightarrow> GetEntriesInput option" where
  "validate_GetEntriesInput (JObj kvs) =
     (if \<not> list_all (\<lambda>kv. fst kv = ''entry_ids'' \<or> fst kv = ''response_format'') kvs then None
      else (case parse_entry_ids kvs of
              None \<Rightarrow> None
            | Some ids \<Rightarrow>
                (case parse_response_format kvs of
                   None \<Rightarrow> None
                 | Some fmt \<Rightarrow> Some \<lparr>GetEntriesInput.entry_ids = ids,
                                     GetEntriesInput.response_format = fmt\<rparr>)))"
| "validate_GetEntriesInput v = None"

section \<open>server.py: the tools\<close>

text \<open>\<open>get_client\<close> (server.py, lines 29-34).\<close>

definition get_client :: "world \<Rightarrow> exn + FeedlyClient" where
  "get_client w =
     (case env_token w of
        None \<Rightarrow> Inl (FeedlyError ''FEEDLY_ACCESS_TOKEN environment variable not set'' None)
      | Some token \<Rightarrow>
          if token = []
          then Inl (FeedlyError ''FEEDLY_ACCESS_TOKEN environment variable not set'' None)
          else Inr \<lparr>access_token = token, base_url = API_BASE_URL\<rparr>)"

text \<open>
  Every tool is one \<open>try\<close> block, \<open>client = get_client()\<close>, one awaited method of the client
  and the rendering of what it returned, under \<open>except Exception as e: return _handle_error(e)\<close>.
  \<open>tool_try\<close> is the block: what it returns, or the exception that ends it, with the requests
  sent. \<open>except_Exception\<close> is the handler.
\<close>

definition tool_try ::
  "world \<Rightarrow> (FeedlyClient \<Rightarrow> (exn + 'a) \<times> http_request list) \<Rightarrow> ('a \<Rightarrow> exn + string)
   \<Rightarrow> (exn + string) \<times> http_request list" where
  "tool_try w call render =
     (case get_client w of
        Inl e \<Rightarrow> (Inl e, [])
      | Inr client \<Rightarrow> (bnd (fst (call client)) render, snd (call client)))"

definition except_Exception :: "(exn + string) \<times> http_request list \<Rightarrow> string \<times> http_request list" where
  "except_Exception r = (case fst r of Inl e \<Rightarrow> handle_error e | Inr s \<Rightarrow> s, snd r)"

text \<open>\<open>feedly_get_profile\<close> (server.py, lines 262-288).\<close>

definition feedly_get_profile_try ::
  "world \<Rightarrow> SimpleResponseFormatInput \<Rightarrow> (exn + string) \<times> http_request list" where
  "feedly_get_profile_try w params =
     tool_try w (get_profile w) (\<lambda>profile.
       if SimpleResponseFormatInput.response_format params = JSON
       then Inr (truncate_response (json_dumps profile))
       else bnd (format_profile_markdown profile) (\<lambda>s. Inr (truncate_response s)))"

definition feedly_get_profile ::
  "world \<Rightarrow> SimpleResponseFormatInput \<Rightarrow> string \<times> http_request list" where
  "feedly_get_profile w params = except_Exception (feedly_get_profile_try w params)"

text \<open>\<open>feedly_get_subscriptions\<close> (server.py, lines 301-326).\<close>

definition feedly_get_subscriptions_try ::
  "world \<Rightarrow> SimpleResponseFormatInput \<Rightarrow> (exn + string) \<times> http_request list" where
  "feedly_get_subscriptions_try w params =
     tool_try w (get_subscriptions w) (\<lambda>subscriptions.
       if SimpleResponseFormatInput.response_format params = JSON
       then Inr (truncate_response (json_dumps subscriptions))
       else bnd (format_subscriptions_markdown subscriptions) (\<lambda>s. Inr (truncate_response s)))"

definition feedly_get_subscriptions ::
  "world \<Rightarrow> SimpleResponseFormatInput \<Rightarrow> string \<times> http_request list" where
  "feedly_get_subscriptions w params = except_Exception (feedly_get_subscriptions_try w params)"

text \<open>\<open>feedly_get_categories\<close> (server.py, lines 339-364).\<close>

definition feedly_get_categories_try ::
  "world \<Rightarrow> SimpleResponseFormatInput \<Rightarrow> (exn + string) \<times> http_request list" where
  "feedly_get_categories_try w params =
     tool_try w (get_categories w) (\<lambda>categories.
       if SimpleResponseFormatInput.response_format params = JSON
       then Inr (truncate_response (json_dumps categories))
       else bnd (format_categories_markdown categories) (\<lambda>s. Inr (truncate_response s)))"

definition feedly_get_categories ::
  "world \<Rightarrow> SimpleResponseFormatInput \<Rightarrow> string \<times> http_request list" where
  "feedly_get_categories w params = except_Exception (feedly_get_categories_try w params)"

text \<open>\<open>feedly_get_tags\<close> (server.py, lines 377-402).\<close>

definition feedly_get_tags_try ::
  "world \<Rightarrow> SimpleResponseFormatInput \<Rightarrow> (exn + string) \<times> http_request list" where
  "feedly_get_tags_try w params =
     tool_try w (get_tags w) (\<lambda>tags.
       if SimpleResponseFormatInput.response_format params = JSON
       then Inr (truncate_response (json_dumps tags))
       else bnd (format_tags_markdown tags) (\<lambda>s. Inr (truncate_response s)))"

definition feedly_get_tags ::
  "world \<Rightarrow> SimpleResponseFormatInput \<Rightarrow> string \<times> http_request list" where
  "feedly_get_tags w params = except_Exception (feedly_get_tags_try w params)"

text \<open>\<open>feedly_get_unread_counts\<close> (server.py, lines 415-439).\<close>

definition feedly_get_unread_counts_try ::
  "world \<Rightarrow> SimpleResponseFormatInput \<Rightarrow> (exn + string) \<times> http_request list" where
  "feedly_get_unread_counts_try w params =
     tool_try w (get_unread_counts w) (\<lambda>counts.
       if SimpleResponseFormatInput.response_format params = JSON
       then Inr (truncate_response (json_dumps counts))
       else bnd (format_unread_counts_markdown (local_time w) counts)
              (\<lambda>s. Inr (truncate_response s)))"

definition feedly_get_unread_counts ::
  "world \<Rightarrow> SimpleResponseFormatInput \<Rightarrow> string \<times> http_request list" where
  "feedly_get_unread_counts w params = except_Exception (feedly_get_unread_counts_try w params)"

text \<open>\<open>feedly_get_stream_contents\<close> (server.py, lines 452-487).\<close>

definition feedly_get_stream_contents_try ::
  "world \<Rightarrow> GetStreamContentsInput \<Rightarrow> (exn + string) \<times> http_request list" where
  "feedly_get_stream_contents_try w params =
     tool_try w
       (\<lambda>client. get_stream_contents w client
          (GetStreamContentsInput.stream_id params)
          (GetStreamContentsInput.count params)
          (GetStreamContentsInput.unread_only params)
          (GetStreamContentsInput.continuation params)
          (ranked_value (GetStreamContentsInput.ranked params)))
       (\<lambda>data.
          bnd (format_stream_contents (local_time w) data
                 (GetStreamContentsInput.response_format params))
            (\<lambda>s. Inr (truncate_response s)))"

definition feedly_get_stream_contents ::
  "world \<Rightarrow> GetStreamContentsInput \<Rightarrow> string \<times> http_request list" where
  "feedly_get_stream_contents w params =
     except_Exception (feedly_get_stream_contents_try w params)"

text \<open>
  \<open>feedly_get_entry\<close> (server.py, lines 500-530). \<open>entries[0] if isinstance(entries, list)
  else entries\<close> is taken of a value that is truthy, so the list is not empty.
\<close>

fun first_if_list :: "json \<Rightarrow> exn + json" where
  "first_if_list (JArr xs) = py_first (JArr xs)"
| "first_if_list v = Inr v"

definition feedly_get_entry_try ::
  "world \<Rightarrow> GetEntryInput \<Rightarrow> (exn + string) \<times> http_request list" where
  "feedly_get_entry_try w params =
     tool_try w (\<lambda>client. get_entry w client (GetEntryInput.entry_id params)) (\<lambda>entries.
       if \<not> py_truthy entries then Inr ''Error: Article not found.''
       else bnd (first_if_list entries) (\<lambda>entry.
         if GetEntryInput.response_format params = JSON
         then Inr (truncate_response (json_dumps entry))
         else bnd (format_entry_markdown (local_time w) entry True)
                (\<lambda>s. Inr (truncate_response s))))"

definition feedly_get_entry :: "world \<Rightarrow> GetEntryInput \<Rightarrow> string \<times> http_request list" where
  "feedly_get_entry w params = except_Exception (feedly_get_entry_try w params)"

text \<open>\<open>feedly_get_entries\<close> (server.py, lines 543-568).\<close>

definition feedly_get_entries_try ::
  "world \<Rightarrow> GetEntriesInput \<Rightarrow> (exn + string) \<times> http_request list" where
  "feedly_get_entries_try w params =
     tool_try w (\<lambda>client. get_entries w client (GetEntriesInput.entry_ids params)) (\<lambda>entries.
       if GetEntriesInput.response_format params = JSON
       then Inr (truncate_response (json_dumps entries))
       else bnd (format_entries_markdown (local_time w) entries True)
              (\<lambda>s. Inr (truncate_response s)))"

definition feedly_get_entries :: "world \<Rightarrow> GetEntriesInput \<Rightarrow> string \<times> http_request list" where
  "feedly_get_entries w params = except_Exception (feedly_get_entries_try w params)"

text \<open>\<open>feedly_mark_as_read\<close> (server.py, lines 581-601).\<close>

definition feedly_mark_as_read_try ::
  "world \<Rightarrow> MarkAsReadInput \<Rightarrow> (exn + string) \<times> http_request list" where
  "feedly_mark_as_read_try w params =
     tool_try w (\<lambda>client. mark_as_read w client (MarkAsReadInput.entry_ids params)) (\<lambda>u.
       Inr (''Successfully marked '' @ str_nat (length (MarkAsReadInput.entry_ids params))
            @ '' article(s) as read.''))"

definition feedly_mark_as_read :: "world \<Rightarrow> MarkAsReadInput \<Rightarrow> string \<times> http_request list" where
  "feedly_mark_as_read w params = except_Exception (feedly_mark_as_read_try w params)"

text \<open>
  The suffix that the two bulk tools add for a cutoff (lines 635-636 and 673-674):
  \<open>if params.as_of:\<close> holds for an integer other than 0.
\<close>

definition as_of_suffix :: "world \<Rightarrow> int option \<Rightarrow> exn + string" where
  "as_of_suffix w cutoff =
     (case cutoff of
        None \<Rightarrow> Inr []
      | Some t \<Rightarrow>
          if t = 0 then Inr []
          else bnd (format_timestamp (local_time w) (JInt t)) (\<lambda>s.
                 Inr ('' (entries before '' @ s @ '')'')))"

text \<open>\<open>feedly_mark_feed_as_read\<close> (server.py, lines 614-639).\<close>

definition feedly_mark_feed_as_read_try ::
  "world \<Rightarrow> MarkFeedAsReadInput \<Rightarrow> (exn + string) \<times> http_request list" where
  "feedly_mark_feed_as_read_try w params =
     tool_try w
       (\<lambda>client. mark_feed_as_read w client (MarkFeedAsReadInput.feed_id params)
                    (MarkFeedAsReadInput.as_of params))
       (\<lambda>u. bnd (as_of_suffix w (MarkFeedAsReadInput.as_of params)) (\<lambda>suffix.
               Inr (''Successfully marked feed as read: '' @ MarkFeedAsReadInput.feed_id params
                    @ suffix)))"

definition feedly_mark_feed_as_read ::
  "world \<Rightarrow> MarkFeedAsReadInput \<Rightarrow> string \<times> http_request list" where
  "feedly_mark_feed_as_read w params = except_Exception (feedly_mark_feed_as_read_try w params)"

text \<open>\<open>feedly_mark_category_as_read\<close> (server.py, lines 652-677).\<close>

definition feedly_mark_category_as_read_try ::
  "world \<Rightarrow> MarkCategoryAsReadInput \<Rightarrow> (exn + string) \<times> http_request list" where
  "feedly_mark_category_as_read_try w params =
     tool_try w
       (\<lambda>client. mark_category_as_read w client (MarkCategoryAsReadInput.category_id params)
                    (MarkCategoryAsReadInput.as_of params))
       (\<lambda>u. bnd (as_of_suffix w (MarkCategoryAsReadInput.as_of params)) (\<lambda>suffix.
               Inr (''Successfully marked category as read: ''
                    @ MarkCategoryAsReadInput.category_id params @ suffix)))"

definition feedly_mark_category_as_read ::
  "world \<Rightarrow> MarkCategoryAsReadInput \<Rightarrow> string \<times> http_request list" where
  "feedly_mark_category_as_read w params =
     except_Exception (feedly_mark_category_as_read_try w params)"

text \<open>\<open>feedly_keep_unread\<close> (server.py, lines 690-710).\<close>

definition feedly_keep_unread_try ::
  "world \<Rightarrow> KeepUnreadInput \<Rightarrow> (exn + string) \<times> http_request list" where
  "feedly_keep_unread_try w params =
     tool_try w (\<lambda>client. keep_unread w client (KeepUnreadInput.entry_ids params)) (\<lambda>u.
       Inr (''Successfully kept '' @ str_nat (length (KeepUnreadInput.entry_ids params))
            @ '' article(s) as unread.''))"

definition feedly_keep_unread :: "world \<Rightarrow> KeepUnreadInput \<Rightarrow> string \<times> http_request list" where
  "feedly_keep_unread w params = except_Exception (feedly_keep_unread_try w params)"

subsection \<open>The registry of tools\<close>

text \<open>
  The twelve functions registered with \<open>@mcp.tool\<close>, each with its validated input. \<open>try_block\<close>
  is the \<open>try\<close> block of the tool called, \<open>call_tool\<close> the tool itself.
\<close>

datatype tool_call =
    GetProfile SimpleResponseFormatInput
  | GetSubscriptions SimpleResponseFormatInput
  | GetCategories SimpleResponseFormatInput
  | GetTags SimpleResponseFormatInput
  | GetUnreadCounts SimpleResponseFormatInput
  | GetStreamContents GetStreamContentsInput
  | GetEntry GetEntryInput
  | GetEntries GetEntriesInput
  | MarkAsRead MarkAsReadInput
  | MarkFeedAsRead MarkFeedAsReadInput
  | MarkCategoryAsRead MarkCategoryAsReadInput
  | KeepUnread KeepUnreadInput

fun try_block :: "world \<Rightarrow> tool_call \<Rightarrow> (exn + string) \<times> http_request list" where
  "try_block w (GetProfile p) = feedly_get_profile_try w p"
| "try_block w (GetSubscriptions p) = feedly_get_subscriptions_try w p"
| "try_block w (GetCategories p) = feedly_get_categories_try w p"
| "try_block w (GetTags p) = feedly_get_tags_try w p"
| "try_block w (GetUnreadCounts p) = feedly_get_unread_counts_try w p"
| "try_block w (GetStreamContents p) = feedly_get_stream_contents_try w p"
| "try_block w (GetEntry p) = feedly_get_entry_try w p"
| "try_block w (GetEntries p) = feedly_get_entries_try w p"
| "try_block w (MarkAsRead p) = feedly_mark_as_read_try w p"
| "try_block w (MarkFeedAsRead p) = feedly_mark_feed_as_read_try w p"
| "try_block w (MarkCategoryAsRead p) = feedly_mark_category_as_read_try w p"
| "try_block w (KeepUnread p) = feedly_keep_unread_try w p"

fun call_tool :: "world \<Rightarrow> tool_call \<Rightarrow> string \<times> http_request list" where
  "call_tool w (GetProfile p) = feedly_get_profile w p"
| "call_tool w (GetSubscriptions p) = feedly_get_subscriptions w p"
| "call_tool w (GetCategories p) = feedly_get_categories w p"
| "call_tool w (GetTags p) = feedly_get_tags w p"
| "call_tool w (GetUnreadCounts p) = feedly_get_unread_counts w p"
| "call_tool w (GetStreamContents p) = feedly_get_stream_contents w p"
| "call_tool w (GetEntry p) = feedly_get_entry w p"
| "call_tool w (GetEntries p) = feedly_get_entries w p"
| "call_tool w (MarkAsRead p) = feedly_mark_as_read w p"
| "call_tool w (MarkFeedAsRead p) = feedly_mark_feed_as_read w p"
| "call_tool w (MarkCategoryAsRead p) = feedly_mark_category_as_read w p"
| "call_tool w (KeepUnread p) = feedly_keep_unread w p"

text \<open>
  A tool function has a parameter of a pydantic model, so the framework that calls it builds
  the model from the raw arguments first. When the arguments fail the model's constraints no
  model exists, the function is not entered, and the \<open>ValidationError\<close> is the framework's
  to report: \<open>ValidationFailed\<close>. Otherwise the call returns the tool's string. The three
  tools below are those whose input is a list of entry IDs.
\<close>

datatype invocation = Returned string | ValidationFailed

definition invoke_mark_as_read :: "world \<Rightarrow> json \<Rightarrow> invocation \<times> http_request list" where
  "invoke_mark_as_read w raw =
     (case validate_MarkAsReadInput raw of
        None \<Rightarrow> (ValidationFailed, [])
      | Some params \<Rightarrow> (Returned (fst (feedly_mark_as_read w params)),
                        snd (feedly_mark_as_read w params)))"

definition invoke_keep_unread :: "world \<Rightarrow> json \<Rightarrow> invocation \<times> http_request list" where
  "invoke_keep_unread w raw =
     (case validate_KeepUnreadInput raw of
        None \<Rightarrow> (ValidationFailed, [])
      | Some params \<Rightarrow> (Returned (fst (feedly_keep_unread w params)),
                        snd (feedly_keep_unread w params)))"

definition invoke_get_entries :: "world \<Rightarrow> json \<Rightarrow> invocation \<times> http_request list" where
  "invoke_get_entries w raw =
     (case validate_GetEntriesInput raw of
        None \<Rightarrow> (ValidationFailed, [])
      | Some params \<Rightarrow> (Returned (fst (feedly_get_entries w params)),
                        snd (feedly_get_entries w params)))"

text \<open>
  The shape that the twelve tools share. \<open>client_call\<close> is the one method of the client that
  the tool awaits, with the value it returns (\<open>None\<close> for the four marker methods), and
  \<open>formatted\<close> is the string the tool builds from that value: for a read-only tool the
  argument of its call of \<open>_truncate_response\<close> (the JSON dump or the markdown rendering), for
  a tool that writes the confirmation it returns. \<open>not_found\<close> is the test \<open>if not entries\<close>
  of \<open>feedly_get_entry\<close> (line 520), the one place where a read-only tool returns a string of
  its own.
\<close>

definition returning_None ::
  "(exn + unit) \<times> http_request list \<Rightarrow> (exn + json) \<times> http_request list" where
  "returning_None r = (bnd (fst r) (\<lambda>u. Inr JNull), snd r)"

fun client_call :: "world \<Rightarrow> FeedlyClient \<Rightarrow> tool_call \<Rightarrow> (exn + json) \<times> http_request list" where
  "client_call w client (GetProfile p) = get_profile w client"
| "client_call w client (GetSubscriptions p) = get_subscriptions w client"
| "client_call w client (GetCategories p) = get_categories w client"
| "client_call w client (GetTags p) = get_tags w client"
| "client_call w client (GetUnreadCounts p) = get_unread_counts w client"
| "client_call w client (GetStreamContents p) =
     get_stream_contents w client
       (GetStreamContentsInput.stream_id p)
       (GetStreamContentsInput.count p)
       (GetStreamContentsInput.unread_only p)
       (GetStreamContentsInput.continuation p)
       (ranked_value (GetStreamContentsInput.ranked p))"
| "client_call w client (GetEntry p) = get_entry w client (GetEntryInput.entry_id p)"
| "client_call w client (GetEntries p) = get_entries w client (GetEntriesInput.entry_ids p)"
| "client_call w client (MarkAsRead p) =
     returning_None (mark_as_read w client (MarkAsReadInput.entry_ids p))"
| "client_call w client (MarkFeedAsRead p) =
     returning_None (mark_feed_as_read w client (MarkFeedAsReadInput.feed_id p)
                       (MarkFeedAsReadInput.as_of p))"
| "client_call w client (MarkCategoryAsRead p) =
     returning_None (mark_category_as_read w client (MarkCategoryAsReadInput.category_id p)
                       (MarkCategoryAsReadInput.as_of p))"
| "client_call w client (KeepUnread p) =
     returning_None (keep_unread w client (KeepUnreadInput.entry_ids p))"

fun not_found :: "tool_call \<Rightarrow> json \<Rightarrow> bool" where
  "not_found (GetEntry p) v = (\<not> py_truthy v)"
| "not_found c v = False"

fun formatted :: "world \<Rightarrow> tool_call \<Rightarrow> json \<Rightarrow> exn + string" where
  "formatted w (GetProfile p) v =
     (if SimpleResponseFormatInput.response_format p = JSON then Inr (json_dumps v)
      else format_profile_markdown v)"
| "formatted w (GetSubscriptions p) v =
     (if SimpleResponseFormatInput.response_format p = JSON then Inr (json_dumps v)
      else format_subscriptions_markdown v)"
| "formatted w (GetCategories p) v =
     (if SimpleResponseFormatInput.response_format p = JSON then Inr (json_dumps v)
      else format_categories_markdown v)"
| "formatted w (GetTags p) v =
     (if SimpleResponseFormatInput.response_format p = JSON then Inr (json_dumps v)
      else format_tags_markdown v)"
| "formatted w (GetUnreadCounts p) v =
     (if SimpleResponseFormatInput.response_format p = JSON then Inr (json_dumps v)
      else format_unread_counts_markdown (local_time w) v)"
| "formatted w (GetStreamContents p) v =
     format_stream_contents (local_time w) v (GetStreamContentsInput.response_format p)"
| "formatted w (GetEntry p) v =
     bnd (first_if_list v) (\<lambda>entry.
       if GetEntryInput.response_format p = JSON then Inr (json_dumps entry)
       else format_entry_markdown (local_time w) entry True)"
| "formatted w (GetEntries p) v =
     (if GetEntriesInput.response_format p = JSON then Inr (json_dumps v)
      else format_entries_markdown (local_time w) v True)"
| "formatted w (MarkAsRead p) v =
     Inr (''Successfully marked '' @ str_nat (length (MarkAsReadInput.entry_ids p))
          @ '' article(s) as read.'')"
| "formatted w (MarkFeedAsRead p) v =
     bnd (as_of_suffix w (MarkFeedAsReadInput.as_of p)) (\<lambda>suffix.
       Inr (''Successfully marked feed as read: '' @ MarkFeedAsReadInput.feed_id p @ suffix))"
| "formatted w (MarkCategoryAsRead p) v =
     bnd (as_of_suffix w (MarkCategoryAsReadInput.as_of p)) (\<lambda>suffix.
       Inr (''Successfully marked category as read: '' @ MarkCategoryAsReadInput.category_id p
            @ suffix))"
| "formatted w (KeepUnread p) v =
     Inr (''Successfully kept '' @ str_nat (length (KeepUnreadInput.entry_ids p))
          @ '' article(s) as unread.'')"

text \<open>\<open>readOnlyHint\<close> in the annotations of each tool: the four tools that mark entries write.\<close>

fun readOnlyHint :: "tool_call \<Rightarrow> bool" where
  "readOnlyHint (MarkAsRead p) = False"
| "readOnlyHint (MarkFeedAsRead p) = False"
| "readOnlyHint (MarkCategoryAsRead p) = False"
| "readOnlyHint (KeepUnread p) = False"
| "readOnlyHint c = True"

section \<open>Notions used to state the properties\<close>

text \<open>
  A process whose token is set, whose upstream answers every request with the response
  given, and whose platform renders every instant as the same text.
\<close>

definition answering :: "http_response \<Rightarrow> world" where
  "answering response =
     \<lparr>env_token = Some ''token'',
      send = (\<lambda>req. Inr response),
      local_time = (\<lambda>n. Inr ''2024-01-01 00:00'')\<rparr>"

text \<open>A response with a JSON body, and one whose body is plain text.\<close>

definition json_response :: "int \<Rightarrow> json \<Rightarrow> http_response" where
  "json_response status v =
     \<lparr>status_code = status, body_text = json_dumps v, body_json = Inr v\<rparr>"

definition text_response :: "int \<Rightarrow> string \<Rightarrow> http_response" where
  "text_response status s =
     \<lparr>status_code = status, body_text = s,
      body_json = Inl (PyError JSONDecodeError ''Expecting value: line 1 column 1 (char 0)'')\<rparr>"



text \<open>The summary of a body text, in the words of the specification.\<close>

definition summary_of :: "string \<Rightarrow> string" where
  "summary_of s = (if length s \<le> 300 then s else take 297 s @ ''...'')"

text \<open>
  Sorting by a key in descending order that keeps items of equal key in their order, in the
  words of the specification: the stable ascending sort of the reversed list, reversed.
\<close>

definition sorted_reverse :: "('a \<Rightarrow> 'k::linorder) \<Rightarrow> 'a list \<Rightarrow> 'a list" where
  "sorted_reverse key xs = rev (sort_key key (rev xs))"

text \<open>
  An unread-count record, in the words of the specification: a dict whose count is an
  integer (0 when the key is absent, as \<open>item.get("count", 0)\<close> has it).
\<close>

definition count_value :: "json \<Rightarrow> json" where
  "count_value item =
     (case item of
        JObj kvs \<Rightarrow> (case map_of kvs ''count'' of None \<Rightarrow> JInt 0 | Some v \<Rightarrow> v)
      | _ \<Rightarrow> JNull)"

definition int_value :: "json \<Rightarrow> int" where
  "int_value k = (case int_key k of Some n \<Rightarrow> n | None \<Rightarrow> 0)"

definition unread_count :: "json \<Rightarrow> int" where
  "unread_count item = int_value (count_value item)"

definition count_record :: "json \<Rightarrow> bool" where
  "count_record item =
     (case item of JObj kvs \<Rightarrow> int_key (count_value item) \<noteq> None | _ \<Rightarrow> False)"

section \<open>Properties\<close>

subsection \<open>Sequencing, the handler and the registry\<close>

lemma bnd_Inl [simp]: "bnd (Inl e) f = Inl e"
  by (simp add: bnd_def)

lemma bnd_Inr [simp]: "bnd (Inr v) f = f v"
  by (simp add: bnd_def)

lemma bnd_eq_Inr: "bnd m f = Inr y \<longleftrightarrow> (\<exists>x. m = Inr x \<and> f x = Inr y)"
  by (cases m) simp_all

lemma bnd_eq_Inl: "bnd m f = Inl e \<longleftrightarrow> m = Inl e \<or> (\<exists>x. m = Inr x \<and> f x = Inl e)"
  by (cases m) simp_all

lemma bnd_if: "bnd (if b then x else y) f = (if b then bnd x f else bnd y f)"
  by simp

lemma bnd_assoc: "bnd (bnd m f) g = bnd m (\<lambda>x. bnd (f x) g)"
  by (cases m) simp_all


lemma call_tool_try_block: "call_tool w c = except_Exception (try_block w c)"
  by (cases c)
     (simp_all add: feedly_get_profile_def feedly_get_subscriptions_def feedly_get_categories_def
        feedly_get_tags_def feedly_get_unread_counts_def feedly_get_stream_contents_def
        feedly_get_entry_def feedly_get_entries_def feedly_mark_as_read_def
        feedly_mark_feed_as_read_def feedly_mark_category_as_read_def feedly_keep_unread_def)

lemma answering_simps [simp]:
  "env_token (answering r) = Some ''token''"
  "send (answering r) req = Inr r"
  "local_time (answering r) n = Inr ''2024-01-01 00:00''"
  by (simp_all add: answering_def)

lemma get_client_answering [simp]:
  "get_client (answering r) = Inr \<lparr>access_token = ''token'', base_url = API_BASE_URL\<rparr>"
  by (simp add: get_client_def)

text \<open>
  Every \<open>try\<close> block builds the client, awaits one method of it and formats what the method
  returned; only a read-only tool passes the formatted string through \<open>_truncate_response\<close>.
\<close>

lemma try_block_requests:
  "snd (try_block w c)
     = (case get_client w of Inl e \<Rightarrow> [] | Inr client \<Rightarrow> snd (client_call w client c))"
  by (cases c; cases "get_client w")
     (simp_all add: tool_try_def returning_None_def
        feedly_get_profile_try_def feedly_get_subscriptions_try_def feedly_get_categories_try_def
        feedly_get_tags_try_def feedly_get_unread_counts_try_def
        feedly_get_stream_contents_try_def feedly_get_entry_try_def feedly_get_entries_try_def
        feedly_mark_as_read_try_def feedly_mark_feed_as_read_try_def
        feedly_mark_category_as_read_try_def feedly_keep_unread_try_def)

lemma try_block_factors:
  "fst (try_block w c)
     = bnd (get_client w) (\<lambda>client.
       bnd (fst (client_call w client c)) (\<lambda>v.
         if not_found c v then Inr ''Error: Article not found.''
         else bnd (formatted w c v) (\<lambda>content.
                Inr (if readOnlyHint c then truncate_response content else content))))"
proof (cases "get_client w")
  case (Inl e)
  then show ?thesis
    by (cases c)
       (simp_all add: tool_try_def
          feedly_get_profile_try_def feedly_get_subscriptions_try_def
          feedly_get_categories_try_def feedly_get_tags_try_def feedly_get_unread_counts_try_def
          feedly_get_stream_contents_try_def feedly_get_entry_try_def feedly_get_entries_try_def
          feedly_mark_as_read_try_def feedly_mark_feed_as_read_try_def
          feedly_mark_category_as_read_try_def feedly_keep_unread_try_def)
next
  case (Inr client)
  show ?thesis
  proof (cases "fst (client_call w client c)")
    case (Inl e)
    with Inr show ?thesis
      by (cases c)
         (simp_all add: tool_try_def returning_None_def bnd_eq_Inl
            feedly_get_profile_try_def feedly_get_subscriptions_try_def
            feedly_get_categories_try_def feedly_get_tags_try_def
            feedly_get_unread_counts_try_def feedly_get_stream_contents_try_def
            feedly_get_entry_try_def feedly_get_entries_try_def
            feedly_mark_as_read_try_def feedly_mark_feed_as_read_try_def
            feedly_mark_category_as_read_try_def feedly_keep_unread_try_def)
  next
    case (Inr v)
    note got = \<open>get_client w = Inr client\<close> Inr
    show ?thesis
    proof (cases c)
      case (GetEntry p)
      with got show ?thesis
        by (cases "GetEntryInput.response_format p = JSON")
           (simp_all add: tool_try_def feedly_get_entry_try_def bnd_assoc)
    qed (use got in \<open>auto simp: tool_try_def returning_None_def bnd_eq_Inr bnd_assoc
            feedly_get_profile_try_def feedly_get_subscriptions_try_def
            feedly_get_categories_try_def feedly_get_tags_try_def
            feedly_get_unread_counts_try_def feedly_get_stream_contents_try_def
            feedly_get_entries_try_def
            feedly_mark_as_read_try_def feedly_mark_feed_as_read_try_def
            feedly_mark_category_as_read_try_def feedly_keep_unread_try_def\<close>)
  qed
qed

subsection \<open>The cap on the size of a response\<close>

lemma length_truncation_notice: "length truncation_notice = 46"
  by (simp add: truncation_notice_def)

lemma truncate_response_short: "length content \<le> 25000 \<Longrightarrow> truncate_response content = content"
  by (simp add: truncate_response_def CHARACTER_LIMIT_def)

lemma truncate_response_long:
  "25000 < length content \<Longrightarrow> truncate_response content = take 24950 content @ truncation_notice"
  by (simp add: truncate_response_def CHARACTER_LIMIT_def py_slice_to_def)

lemma length_truncate_response: "length (truncate_response content) \<le> 25000"
  by (cases "length content \<le> 25000")
     (simp_all add: truncate_response_short truncate_response_long length_truncation_notice)

lemma read_tool_returns:
  assumes "readOnlyHint c" and "fst (try_block w c) = Inr s"
  shows "\<exists>client v. get_client w = Inr client \<and> fst (client_call w client c) = Inr v
           \<and> (if not_found c v then s = ''Error: Article not found.''
               else \<exists>content. formatted w c v = Inr content \<and> s = truncate_response content)"
proof -
  from assms(2) obtain client v
    where client: "get_client w = Inr client"
      and v: "fst (client_call w client c) = Inr v"
      and s: "(if not_found c v then Inr ''Error: Article not found.''
               else bnd (formatted w c v) (\<lambda>content.
                      Inr (if readOnlyHint c then truncate_response content else content)))
              = Inr s"
    unfolding try_block_factors [of w c] bnd_eq_Inr by blast
  show ?thesis
  proof (cases "not_found c v")
    case True
    with s client v show ?thesis
      by auto
  next
    case False
    with s assms(1) obtain content
      where "formatted w c v = Inr content" and "s = truncate_response content"
      by (auto simp: bnd_eq_Inr)
    with False client v show ?thesis
      by auto
  qed
qed

lemma read_tool_capped:
  assumes "readOnlyHint c" and "fst (try_block w c) = Inr s"
  shows "length s \<le> 25000"
proof -
  from read_tool_returns [OF assms] obtain v
    where "if not_found c v then s = ''Error: Article not found.''
           else \<exists>content. formatted w c v = Inr content \<and> s = truncate_response content"
    by blast
  then show ?thesis
    by (cases "not_found c v") (auto simp: length_truncate_response)
qed

lemma read_tool_caps_content:
  assumes "readOnlyHint c" and "get_client w = Inr client"
    and "fst (client_call w client c) = Inr v" and "\<not> not_found c v"
    and "formatted w c v = Inr content"
  shows "fst (call_tool w c) = truncate_response content"
  using assms by (simp add: call_tool_try_block except_Exception_def try_block_factors)

lemma concat_replicate_single: "concat (replicate n [x]) = replicate n x"
  by (induction n) simp_all

text \<open>
  Claim C1, as the code has it. \<open>_truncate_response\<close> never returns more than 25,000
  characters: content of at most 25,000 characters is returned as it is, and longer content
  is cut to its first 24,950 characters followed by the truncation notice, 24,950 plus the
  length of the notice in all. Every read-only tool passes what it formats through it: when
  the client is built and its method returns a value \<open>v\<close>, the tool returns
  \<open>_truncate_response\<close> of the string it formats from \<open>v\<close> (the JSON dump or the markdown
  rendering), but for the fixed string \<open>Error: Article not found.\<close> that \<open>feedly_get_entry\<close>
  returns for an empty value. So whatever the \<open>try\<close> block of a read-only tool returns is the
  tool's result, is one of these two, and has at most 25,000 characters. The strings of
  \<open>_handle_error\<close> and the confirmations of the four tools that write do not pass through it
  (see the counterexample).
\<close>

theorem truncate_response_caps_read_tools:
  "length (truncate_response content) \<le> 25000
   \<and> (25000 < length content \<longrightarrow>
        truncate_response content = take 24950 content @ truncation_notice
        \<and> length (truncate_response content) = 24950 + length truncation_notice)
   \<and> (length content \<le> 25000 \<longrightarrow> truncate_response content = content)
   \<and> (readOnlyHint c \<longrightarrow>
        (\<forall>s. fst (try_block w c) = Inr s \<longrightarrow> fst (call_tool w c) = s \<and> length s \<le> 25000)
        \<and> (\<forall>s. fst (try_block w c) = Inr s \<longrightarrow>
              (\<exists>client v. get_client w = Inr client \<and> fst (client_call w client c) = Inr v
                 \<and> (if not_found c v then s = ''Error: Article not found.''
                     else \<exists>formatted_content. formatted w c v = Inr formatted_content
                            \<and> s = truncate_response formatted_content)))
        \<and> (\<forall>client v formatted_content.
              get_client w = Inr client \<and> fst (client_call w client c) = Inr v
              \<and> \<not> not_found c v \<and> formatted w c v = Inr formatted_content \<longrightarrow>
              fst (call_tool w c) = truncate_response formatted_content))"
proof -
  have "fst (call_tool w c) = s" if "fst (try_block w c) = Inr s" for s
    using that by (simp add: call_tool_try_block except_Exception_def)
  moreover have "25000 < length content \<longrightarrow>
        truncate_response content = take 24950 content @ truncation_notice
        \<and> length (truncate_response content) = 24950 + length truncation_notice"
    by (simp add: truncate_response_long)
  moreover have "length content \<le> 25000 \<longrightarrow> truncate_response content = content"
    by (simp add: truncate_response_short)
  ultimately show ?thesis
    using length_truncate_response [of content] read_tool_capped [of c w]
      read_tool_returns [of c w] read_tool_caps_content [of c w]
    by blast
qed

text \<open>
  The theorem at content of 30,000 characters and at content of two, and at the profile tool
  in JSON mode when the upstream answers with a text of 30,000 characters: the tool returns
  the first 24,950 characters of the dump, the opening quote and 24,949 letters, and the
  notice.
\<close>

theorem truncate_response_caps_read_tools_witness:
  "truncate_response (replicate 30000 CHR ''x'') = replicate 24950 CHR ''x'' @ truncation_notice
   \<and> length (truncate_response (replicate 30000 CHR ''x'')) = 24950 + length truncation_notice
   \<and> truncate_response ''[]'' = ''[]''
   \<and> fst (call_tool (answering (json_response 200 (JStr (replicate 30000 CHR ''a''))))
            (GetProfile \<lparr>SimpleResponseFormatInput.response_format = JSON\<rparr>))
       = CHR 0x22 # replicate 24949 CHR ''a'' @ truncation_notice
   \<and> length (fst (call_tool (answering (json_response 200 (JStr (replicate 30000 CHR ''a''))))
            (GetProfile \<lparr>SimpleResponseFormatInput.response_format = JSON\<rparr>))) = 24996"
proof -
  let ?v = "JStr (replicate 30000 CHR ''a'')"
  let ?w = "answering (json_response 200 ?v)"
  let ?c = "GetProfile \<lparr>SimpleResponseFormatInput.response_format = JSON\<rparr>"
  let ?client = "\<lparr>access_token = ''token'', base_url = API_BASE_URL\<rparr>"
  let ?dump = "CHR 0x22 # replicate 30000 CHR ''a'' @ [CHR 0x22]"
  have long: "25000 < length (replicate 30000 CHR ''x'')"
    by simp
  have short: "length ''[]'' \<le> 25000"
    by simp
  have read: "readOnlyHint ?c"
    by simp
  have client: "get_client ?w = Inr ?client"
    by simp
  have payload: "fst (client_call ?w ?client ?c) = Inr ?v"
    by (simp add: get_profile_def request_def json_response_def raise_for_status_def)
  have found: "\<not> not_found ?c ?v"
    by simp
  have dump: "formatted ?w ?c ?v = Inr ?dump"
    by (simp add: json_dumps_def json_quote_def json_escape_char_def concat_replicate_single)
  have long_dump: "25000 < length ?dump"
    by simp
  from truncate_response_caps_read_tools [of "replicate 30000 CHR ''x''" ?c ?w] long
  have "truncate_response (replicate 30000 CHR ''x'')
          = take 24950 (replicate 30000 CHR ''x'') @ truncation_notice"
    and "length (truncate_response (replicate 30000 CHR ''x'')) = 24950 + length truncation_notice"
    by blast+
  moreover from truncate_response_caps_read_tools [of "''[]''" ?c ?w] short
  have "truncate_response ''[]'' = ''[]''"
    by blast
  moreover from truncate_response_caps_read_tools [of ?dump ?c ?w] read client payload found dump
  have "fst (call_tool ?w ?c) = truncate_response ?dump"
    by blast
  moreover from truncate_response_caps_read_tools [of ?dump ?c ?w] long_dump
  have "truncate_response ?dump = take 24950 ?dump @ truncation_notice"
    by blast
  ultimately show ?thesis
    by (simp add: length_truncation_notice)
qed

text \<open>
  Claim C1 fails as stated: a feed identifier has no upper bound on its length, and the
  confirmation of the tool that marks a feed as read repeats it; an upstream failure with a
  long body is repeated by \<open>_handle_error\<close>. Both results have more than 25,000 characters.
\<close>

theorem response_longer_than_limit:
  "25000 < length (fst (call_tool (answering (json_response 200 JNull))
        (MarkFeedAsRead \<lparr>feed_id = ''feed/'' @ replicate 25000 CHR ''a'', as_of = None\<rparr>)))
   \<and> 25000 < length (fst (call_tool (answering (text_response 500 (replicate 25000 CHR ''x'')))
        (GetProfile \<lparr>SimpleResponseFormatInput.response_format = MARKDOWN\<rparr>)))"
  by (simp add: feedly_mark_feed_as_read_def feedly_mark_feed_as_read_try_def except_Exception_def
        tool_try_def mark_feed_as_read_def discard_def
        request_def raise_for_status_def as_of_suffix_def feedly_get_profile_def
        feedly_get_profile_try_def get_profile_def json_response_def
        text_response_def)

subsection \<open>The order of the unread counts\<close>

lemma py_lt_int:
  "int_key a \<noteq> None \<Longrightarrow> int_key b \<noteq> None \<Longrightarrow> py_lt a b = Inr (int_value a < int_value b)"
  by (cases a; cases b) (auto simp: int_value_def)

lemma run_length_int:
  assumes "\<forall>k\<in>set ks. int_key k \<noteq> None" and "int_key prev \<noteq> None"
  shows "\<exists>n. run_length d prev ks = Inr n \<and> n \<le> length ks
           \<and> (if d then sorted_wrt (\<lambda>a b. int_value b < int_value a) (prev # take n ks)
               else sorted_wrt (\<lambda>a b. int_value a \<le> int_value b) (prev # take n ks))"
  using assms
proof (induction ks arbitrary: prev)
  case Nil
  then show ?case by simp
next
  case (Cons k ks)
  then have lt: "py_lt k prev = Inr (int_value k < int_value prev)"
    by (simp add: py_lt_int)
  show ?case
  proof (cases "(int_value k < int_value prev) = d")
    case False
    with lt show ?thesis by auto
  next
    case True
    from Cons.prems have "\<forall>k\<in>set ks. int_key k \<noteq> None" "int_key k \<noteq> None"
      by simp_all
    from Cons.IH [OF this] obtain n where n: "run_length d k ks = Inr n" "n \<le> length ks"
      "if d then sorted_wrt (\<lambda>a b. int_value b < int_value a) (k # take n ks)
       else sorted_wrt (\<lambda>a b. int_value a \<le> int_value b) (k # take n ks)"
      by blast
    have "run_length d prev (k # ks) = Inr (Suc n)"
      using lt True n(1) by simp
    moreover have "if d then sorted_wrt (\<lambda>a b. int_value b < int_value a) (prev # take (Suc n) (k # ks))
       else sorted_wrt (\<lambda>a b. int_value a \<le> int_value b) (prev # take (Suc n) (k # ks))"
      using n(3) True by (cases d) force+
    ultimately show ?thesis
      using n(2) by auto
  qed
qed

lemma bisect_int:
  assumes "\<forall>k\<in>set ks. int_key k \<noteq> None" and "int_key pivot \<noteq> None"
    and "sorted (map int_value ks)"
  shows "\<exists>i. bisect pivot ks = Inr i \<and> i \<le> length ks
           \<and> (\<forall>k\<in>set (take i ks). int_value k \<le> int_value pivot)
           \<and> (\<forall>k\<in>set (drop i ks). int_value pivot < int_value k)"
  using assms
proof (induction ks rule: length_induct)
  case (1 ks)
  show ?case
  proof (cases "ks = []")
    case True
    then show ?thesis
      by (simp add: bisect.simps)
  next
    case False
    let ?p = "length ks div 2"
    let ?m = "ks ! ?p"
    have p: "?p < length ks"
      using False by simp
    then have split: "ks = take ?p ks @ ?m # drop (Suc ?p) ks"
      by (rule id_take_nth_drop)
    have m: "int_key ?m \<noteq> None"
      using "1.prems"(1) p by simp
    have lt: "py_lt pivot ?m = Inr (int_value pivot < int_value ?m)"
      using m "1.prems"(2) by (simp add: py_lt_int)
    have sorted_parts: "sorted (map int_value (take ?p ks))" "sorted (map int_value (drop (Suc ?p) ks))"
      "\<forall>k\<in>set (take ?p ks). int_value k \<le> int_value ?m" "\<forall>k\<in>set (drop (Suc ?p) ks). int_value ?m \<le> int_value k"
      using "1.prems"(3) by (subst (asm) split, simp add: sorted_append; fail)+
    show ?thesis
    proof (cases "int_value pivot < int_value ?m")
      case True
      have "length (take ?p ks) < length ks"
        using p by simp
      moreover have "\<forall>k\<in>set (take ?p ks). int_key k \<noteq> None"
        using "1.prems"(1) by (meson in_set_takeD)
      ultimately obtain i where i: "bisect pivot (take ?p ks) = Inr i" "i \<le> length (take ?p ks)"
        "\<forall>k\<in>set (take i (take ?p ks)). int_value k \<le> int_value pivot"
        "\<forall>k\<in>set (drop i (take ?p ks)). int_value pivot < int_value k"
        using "1.IH" "1.prems"(2) sorted_parts(1) by blast
      have ip: "i \<le> ?p"
        using i(2) by simp
      have "bisect pivot ks = Inr i"
        using False lt True i(1) by (subst bisect.simps) simp
      moreover have "i \<le> length ks"
        using ip p by simp
      moreover have "take i ks = take i (take ?p ks)"
        using ip by (simp add: min_def)
      moreover have "drop i ks = drop i (take ?p ks) @ ?m # drop (Suc ?p) ks"
        using ip p by (subst split) simp
      ultimately show ?thesis
        using i(3,4) True sorted_parts(4) by auto
    next
      case False
      have "length (drop (Suc ?p) ks) < length ks"
        using p by simp
      moreover have "\<forall>k\<in>set (drop (Suc ?p) ks). int_key k \<noteq> None"
        using "1.prems"(1) by (meson in_set_dropD)
      ultimately obtain j where j: "bisect pivot (drop (Suc ?p) ks) = Inr j"
        "j \<le> length (drop (Suc ?p) ks)"
        "\<forall>k\<in>set (take j (drop (Suc ?p) ks)). int_value k \<le> int_value pivot"
        "\<forall>k\<in>set (drop j (drop (Suc ?p) ks)). int_value pivot < int_value k"
        using "1.IH" "1.prems"(2) sorted_parts(2) by blast
      have "bisect pivot ks = Inr (Suc ?p + j)"
        using \<open>ks \<noteq> []\<close> lt False j(1) by (subst bisect.simps) simp
      moreover have "Suc ?p + j \<le> length ks"
        using j(2) p by simp
      moreover have "take (Suc ?p + j) ks = take ?p ks @ ?m # take j (drop (Suc ?p) ks)"
        by (simp only: take_add take_Suc_conv_app_nth [OF p]) simp
      moreover have "drop (Suc ?p + j) ks = drop j (drop (Suc ?p) ks)"
        by (simp add: add.commute)
      ultimately show ?thesis
        using j(3,4) False sorted_parts(3) by auto
    qed
  qed
qed

lemma insert_sorted:
  assumes s: "s = sort_key f xs"
    and before: "\<forall>x\<in>set (take i s). f x \<le> f a"
    and after: "\<forall>x\<in>set (drop i s). f a < f x"
  shows "take i s @ a # drop i s = sort_key f (xs @ [a])"
proof (rule properties_for_sort_key [symmetric])
  have "mset (take i s) + mset (drop i s) = mset s"
    by (simp flip: mset_append)
  then show "mset (take i s @ a # drop i s) = mset (xs @ [a])"
    by (simp add: s)
next
  have sorted: "sorted (map f s)"
    by (simp add: s)
  then have "sorted (map f (take i s))" "sorted (map f (drop i s))"
    by (simp_all add: sorted_wrt_take sorted_wrt_drop flip: take_map drop_map)
  with before after show "sorted (map f (take i s @ a # drop i s))"
    by (fastforce simp: sorted_append)
next
  fix k
  define P where "P = (\<lambda>x. f k = f x)"
  have "filter P xs = filter P s"
    using sort_key_stable [of f "f k" xs] by (simp add: s P_def eq_commute)
  also have "\<dots> = filter P (take i s) @ filter P (drop i s)"
    by (simp flip: filter_append)
  finally have parts: "filter P xs = filter P (take i s) @ filter P (drop i s)" .
  have "filter P (drop i s) = []" if "P a"
    using that after by (auto simp: filter_empty_conv P_def)
  then have "filter P (take i s @ a # drop i s) = filter P (xs @ [a])"
    by (simp add: parts)
  then show "filter (\<lambda>x. f k = f x) (take i s @ a # drop i s) = filter (\<lambda>x. f k = f x) (xs @ [a])"
    by (simp only: P_def)
qed

lemma binarysort_int:
  assumes "\<forall>kx\<in>set rest. int_key (fst kx) \<noteq> None"
    and "\<forall>kx\<in>set acc. int_key (fst kx) \<noteq> None"
    and "acc = sort_key (\<lambda>kx. int_value (fst kx)) xs"
  shows "binarysort acc rest = Inr (sort_key (\<lambda>kx. int_value (fst kx)) (xs @ rest))"
  using assms
proof (induction rest arbitrary: acc xs)
  case Nil
  then show ?case by simp
next
  case (Cons kx rest)
  let ?f = "\<lambda>kx. int_value (fst kx)"
  have "sorted (map int_value (map fst acc))"
    by (simp add: Cons.prems(3) o_def)
  moreover have "\<forall>k\<in>set (map fst acc). int_key k \<noteq> None"
    using Cons.prems(2) by simp
  moreover have "int_key (fst kx) \<noteq> None"
    using Cons.prems(1) by simp
  ultimately obtain i where i: "bisect (fst kx) (map fst acc) = Inr i"
    "\<forall>k\<in>set (take i (map fst acc)). int_value k \<le> int_value (fst kx)"
    "\<forall>k\<in>set (drop i (map fst acc)). int_value (fst kx) < int_value k"
    using bisect_int [of "map fst acc" "fst kx"] by blast
  from i(2,3) have "\<forall>x\<in>set (take i acc). ?f x \<le> ?f kx" "\<forall>x\<in>set (drop i acc). ?f kx < ?f x"
    by (simp_all add: take_map drop_map)
  with Cons.prems(3) have next_acc: "take i acc @ kx # drop i acc = sort_key ?f (xs @ [kx])"
    by (intro insert_sorted)
  have "\<forall>kx\<in>set (take i acc @ kx # drop i acc). int_key (fst kx) \<noteq> None"
    using Cons.prems(1,2) by (auto dest: in_set_takeD in_set_dropD)
  with Cons.prems(1) next_acc
  have "binarysort (take i acc @ kx # drop i acc) rest = Inr (sort_key ?f ((xs @ [kx]) @ rest))"
    by (intro Cons.IH) simp_all
  with i(1) show ?case
    by simp
qed

lemma insort_key_last: "\<forall>y\<in>set ys. f y < f x \<Longrightarrow> insort_key f x ys = ys @ [x]"
  by (induction ys) auto

lemma sort_key_descending:
  "sorted_wrt (\<lambda>a b. f b < f a) xs \<Longrightarrow> sort_key f xs = rev xs"
  by (induction xs) (simp_all add: insort_key_last)

lemma sort_key_ascending:
  "sorted_wrt (\<lambda>a b. f a \<le> f b) xs \<Longrightarrow> sort_key f xs = xs"
  by (simp add: sort_key_id_if_sorted sorted_wrt_map)

lemma count_run_int:
  assumes "\<forall>k\<in>set ks. int_key k \<noteq> None" and "2 \<le> length ks"
  shows "\<exists>d n. count_run ks = Inr (d, n) \<and> n \<le> length ks
           \<and> (if d then sorted_wrt (\<lambda>a b. int_value b < int_value a) (take n ks)
               else sorted_wrt (\<lambda>a b. int_value a \<le> int_value b) (take n ks))"
proof -
  from assms(2) obtain k0 k1 rest where ks: "ks = k0 # k1 # rest"
    by (cases ks; cases "tl ks") auto
  let ?d = "int_value k1 < int_value k0"
  have lt: "py_lt k1 k0 = Inr ?d"
    using assms(1) by (simp add: ks py_lt_int)
  from assms(1) obtain n where n: "run_length ?d k1 rest = Inr n" "n \<le> length rest"
    "if ?d then sorted_wrt (\<lambda>a b. int_value b < int_value a) (k1 # take n rest)
     else sorted_wrt (\<lambda>a b. int_value a \<le> int_value b) (k1 # take n rest)"
    using run_length_int [of rest k1 ?d] by (auto simp: ks)
  have "count_run ks = Inr (?d, n + 2)"
    by (simp add: ks lt n(1))
  moreover have "n + 2 \<le> length ks"
    using n(2) by (simp add: ks)
  moreover have "if ?d then sorted_wrt (\<lambda>a b. int_value b < int_value a) (take (n + 2) ks)
               else sorted_wrt (\<lambda>a b. int_value a \<le> int_value b) (take (n + 2) ks)"
    using n(3) by (cases ?d) (force simp: ks)+
  ultimately show ?thesis
    by blast
qed

lemma py_sorted_reverse_int:
  assumes "\<forall>kx\<in>set kxs. int_key (fst kx) \<noteq> None"
  shows "py_sorted_reverse kxs = Inr (map snd (sorted_reverse (\<lambda>kx. int_value (fst kx)) kxs))"
proof (cases "length kxs < 2")
  case True
  then have "sorted_reverse (\<lambda>kx. int_value (fst kx)) kxs = kxs"
    by (cases kxs; cases "tl kxs") (auto simp: sorted_reverse_def)
  with True show ?thesis
    by (simp add: py_sorted_reverse_def)
next
  case False
  let ?f = "\<lambda>kx. int_value (fst kx)"
  let ?r = "rev kxs"
  have keys: "\<forall>k\<in>set (map fst ?r). int_key k \<noteq> None"
    using assms by simp
  moreover have "2 \<le> length (map fst ?r)"
    using False by simp
  ultimately obtain d n where run: "count_run (map fst ?r) = Inr (d, n)"
    "if d then sorted_wrt (\<lambda>a b. int_value b < int_value a) (take n (map fst ?r))
     else sorted_wrt (\<lambda>a b. int_value a \<le> int_value b) (take n (map fst ?r))"
    using count_run_int [of "map fst ?r"] by blast
  let ?base = "if d then rev (take n ?r) else take n ?r"
  have base: "?base = sort_key ?f (take n ?r)"
  proof (cases d)
    case True
    with run(2) have "sorted_wrt (\<lambda>a b. ?f b < ?f a) (take n ?r)"
      by (simp add: sorted_wrt_map take_map)
    with True show ?thesis
      by (simp add: sort_key_descending)
  next
    case False
    with run(2) have "sorted_wrt (\<lambda>a b. ?f a \<le> ?f b) (take n ?r)"
      by (simp add: sorted_wrt_map take_map)
    with False show ?thesis
      by (simp add: sort_key_ascending)
  qed
  have "\<forall>kx\<in>set (drop n ?r). int_key (fst kx) \<noteq> None"
    using assms set_drop_subset [of n ?r] by auto
  moreover have "\<forall>kx\<in>set ?base. int_key (fst kx) \<noteq> None"
    using assms set_take_subset [of n ?r] by auto
  ultimately have "binarysort ?base (drop n ?r) = Inr (sort_key ?f (take n ?r @ drop n ?r))"
    using base by (rule binarysort_int)
  with False run(1) show ?thesis
    by (cases d) (simp_all add: py_sorted_reverse_def sorted_reverse_def)
qed

lemma insort_key_map: "insort_key f (h x) (map h xs) = map h (insort_key (\<lambda>y. f (h y)) x xs)"
  by (induction xs) simp_all

lemma sort_key_map: "sort_key f (map h xs) = map h (sort_key (\<lambda>y. f (h y)) xs)"
  by (induction xs) (simp_all add: insort_key_map)

lemma sorted_reverse_map: "sorted_reverse f (map h xs) = map h (sorted_reverse (\<lambda>y. f (h y)) xs)"
  by (simp add: sorted_reverse_def sort_key_map rev_map)

lemma mset_sorted_reverse: "mset (sorted_reverse f xs) = mset xs"
  by (simp add: sorted_reverse_def)

lemma sorted_reverse_descending: "sorted (rev (map f (sorted_reverse f xs)))"
  by (simp add: sorted_reverse_def rev_map)

lemma sorted_reverse_stable:
  "filter (\<lambda>x. f x = k) (sorted_reverse f xs) = filter (\<lambda>x. f x = k) xs"
  by (simp add: sorted_reverse_def sort_key_stable flip: rev_filter)

lemma count_keys:
  "list_all count_record items \<Longrightarrow>
   mapM (\<lambda>x. dict_get x ''count'' (JInt 0)) items = Inr (map count_value items)"
  by (induction items) (auto simp: count_record_def count_value_def split: json.splits)

lemma count_record_key: "count_record x \<Longrightarrow> int_key (count_value x) \<noteq> None"
  by (cases x) (simp_all add: count_record_def)

lemma zip_map_self: "zip (map f xs) xs = map (\<lambda>x. (f x, x)) xs"
  by (induction xs) simp_all

lemma py_sorted_reverse_records:
  assumes "list_all count_record items"
  shows "py_sorted_reverse (zip (map count_value items) items)
           = Inr (sorted_reverse unread_count items)"
proof -
  have "\<forall>kx\<in>set (map (\<lambda>x. (count_value x, x)) items). int_key (fst kx) \<noteq> None"
    using assms count_record_key by (auto simp: list_all_iff)
  then have "py_sorted_reverse (map (\<lambda>x. (count_value x, x)) items)
               = Inr (map snd (sorted_reverse (\<lambda>kx. int_value (fst kx))
                                 (map (\<lambda>x. (count_value x, x)) items)))"
    by (rule py_sorted_reverse_int)
  also have "\<dots> = Inr (sorted_reverse (\<lambda>x. int_value (count_value x)) items)"
    by (simp add: sorted_reverse_map o_def)
  also have "(\<lambda>x. int_value (count_value x)) = unread_count"
    by (rule ext) (simp add: unread_count_def)
  finally show ?thesis
    by (simp only: zip_map_self)
qed

lemma unread_lines_id:
  assumes "dict_get item ''id'' (JStr []) = Inr (JStr sid)"
    and "unread_count_lines clock item = Inr ls"
  shows "length ls = 2 \<and> ls ! 1 = ''  - ID: `'' @ sid @ ''`''"
  using assms by (auto simp: unread_count_lines_def bnd_eq_Inr)

text \<open>
  Claim C7. When the payload holds a list of unread-count records that is not empty, each a
  dict whose count is an integer or is absent, the markdown rendering is the heading followed
  by the lines of the records in the order \<open>sorted_reverse unread_count\<close>: the same records,
  their counts in descending order, and the records of each count in the order of the input.
  The line of a record that gives its identifier shows the identifier as it is.
\<close>

theorem unread_counts_sorted_descending:
  assumes "dict_get data ''unreadcounts'' (JArr []) = Inr (JArr items)"
    and "items \<noteq> []" and "list_all count_record items"
  shows "format_unread_counts_markdown clock data
           = bnd (mapM (unread_count_lines clock) (sorted_reverse unread_count items))
               (\<lambda>blocks. Inr (py_join ''\<newline>'' (''## Unread Counts\<newline>'' # concat blocks)))
       \<and> mset (sorted_reverse unread_count items) = mset items
       \<and> sorted (rev (map unread_count (sorted_reverse unread_count items)))
       \<and> (\<forall>k. filter (\<lambda>x. unread_count x = k) (sorted_reverse unread_count items)
                = filter (\<lambda>x. unread_count x = k) items)
       \<and> (\<forall>item sid ls. dict_get item ''id'' (JStr []) = Inr (JStr sid)
              \<and> unread_count_lines clock item = Inr ls \<longrightarrow>
              length ls = 2 \<and> ls ! 1 = ''  - ID: `'' @ sid @ ''`'')"
proof -
  have truthy: "py_truthy (JArr items)"
    using assms(2) by simp
  have rendering: "format_unread_counts_markdown clock data
           = bnd (mapM (unread_count_lines clock) (sorted_reverse unread_count items))
               (\<lambda>blocks. Inr (py_join ''\<newline>'' (''## Unread Counts\<newline>'' # concat blocks)))"
    unfolding format_unread_counts_markdown_def
    by (simp only: assms(1) bnd_Inr truthy simp_thms if_False py_iter.simps
          count_keys [OF assms(3)] py_sorted_reverse_records [OF assms(3)])
  have stable: "\<forall>k. filter (\<lambda>x. unread_count x = k) (sorted_reverse unread_count items)
          = filter (\<lambda>x. unread_count x = k) items"
    by (intro allI) (rule sorted_reverse_stable)
  have ids: "\<forall>item sid ls. dict_get item ''id'' (JStr []) = Inr (JStr sid)
              \<and> unread_count_lines clock item = Inr ls \<longrightarrow>
              length ls = 2 \<and> ls ! 1 = ''  - ID: `'' @ sid @ ''`''"
  proof (intro allI impI)
    fix item sid ls
    assume "dict_get item ''id'' (JStr []) = Inr (JStr sid)
              \<and> unread_count_lines clock item = Inr ls"
    then have "dict_get item ''id'' (JStr []) = Inr (JStr sid)"
      and "unread_count_lines clock item = Inr ls"
      by (rule conjunct1, rule conjunct2)
    then show "length ls = 2 \<and> ls ! 1 = ''  - ID: `'' @ sid @ ''`''"
      by (rule unread_lines_id)
  qed
  show ?thesis
    using rendering mset_sorted_reverse [of unread_count items]
      sorted_reverse_descending [of unread_count items] stable ids
    by (simp only: simp_thms)
qed

lemma str_int_small: "str_int 10 = ''10''" "str_int 3 = ''3''" "str_int 1 = ''1''"
  by code_simp+

text \<open>
  The theorem at three records with the counts 3, 10 and 1: they are rendered in the order
  10, 3, 1.
\<close>

theorem unread_counts_sorted_descending_witness:
  "map unread_count (sorted_reverse unread_count
     [JObj [(''id'', JStr ''feed/a''), (''count'', JInt 3)],
      JObj [(''id'', JStr ''user/1/category/b''), (''count'', JInt 10)],
      JObj [(''id'', JStr ''feed/c''), (''count'', JInt 1)]]) = [10, 3, 1]
   \<and> format_unread_counts_markdown (\<lambda>n. Inr ''2024-01-01 00:00'')
       (JObj [(''unreadcounts'', JArr
         [JObj [(''id'', JStr ''feed/a''), (''count'', JInt 3)],
          JObj [(''id'', JStr ''user/1/category/b''), (''count'', JInt 10)],
          JObj [(''id'', JStr ''feed/c''), (''count'', JInt 1)]])])
     = Inr (''## Unread Counts\<newline>\<newline>''
            @ ''- **b** (Category): 10 unread (updated: Unknown)\<newline>''
            @ ''  - ID: `user/1/category/b`\<newline>''
            @ ''- **a** (Feed): 3 unread (updated: Unknown)\<newline>''
            @ ''  - ID: `feed/a`\<newline>''
            @ ''- **c** (Feed): 1 unread (updated: Unknown)\<newline>''
            @ ''  - ID: `feed/c`'')"
proof -
  let ?a = "JObj [(''id'', JStr ''feed/a''), (''count'', JInt 3)]"
  let ?b = "JObj [(''id'', JStr ''user/1/category/b''), (''count'', JInt 10)]"
  let ?c = "JObj [(''id'', JStr ''feed/c''), (''count'', JInt 1)]"
  let ?data = "JObj [(''unreadcounts'', JArr [?a, ?b, ?c])]"
  let ?clock = "\<lambda>n::int. Inr ''2024-01-01 00:00'' :: exn + string"
  have h1: "dict_get ?data ''unreadcounts'' (JArr []) = Inr (JArr [?a, ?b, ?c])"
    by simp
  have h2: "[?a, ?b, ?c] \<noteq> []"
    by simp
  have h3: "list_all count_record [?a, ?b, ?c]"
    by (simp add: count_record_def count_value_def)
  have order: "sorted_reverse unread_count [?a, ?b, ?c] = [?b, ?a, ?c]"
    by (simp add: sorted_reverse_def unread_count_def count_value_def int_value_def)
  have la: "unread_count_lines ?clock ?a
              = Inr [''- **a** (Feed): 3 unread (updated: Unknown)'', ''  - ID: `feed/a`'']"
    by (simp add: unread_count_lines_def stream_name_and_type_def str_int_small)
  have lb: "unread_count_lines ?clock ?b
              = Inr [''- **b** (Category): 10 unread (updated: Unknown)'',
                     ''  - ID: `user/1/category/b`'']"
    by (simp add: unread_count_lines_def stream_name_and_type_def str_int_small py_split_def)
  have lc: "unread_count_lines ?clock ?c
              = Inr [''- **c** (Feed): 1 unread (updated: Unknown)'', ''  - ID: `feed/c`'']"
    by (simp add: unread_count_lines_def stream_name_and_type_def str_int_small)
  from unread_counts_sorted_descending [OF h1 h2 h3, of ?clock]
  have "format_unread_counts_markdown ?clock ?data
          = bnd (mapM (unread_count_lines ?clock) (sorted_reverse unread_count [?a, ?b, ?c]))
              (\<lambda>blocks. Inr (py_join ''\<newline>'' (''## Unread Counts\<newline>'' # concat blocks)))"
    by (rule conjunct1)
  then have "format_unread_counts_markdown ?clock ?data
          = Inr (py_join ''\<newline>'' (''## Unread Counts\<newline>'' #
              [''- **b** (Category): 10 unread (updated: Unknown)'',
               ''  - ID: `user/1/category/b`'',
               ''- **a** (Feed): 3 unread (updated: Unknown)'', ''  - ID: `feed/a`'',
               ''- **c** (Feed): 1 unread (updated: Unknown)'', ''  - ID: `feed/c`'']))"
    by (simp only: order mapM.simps la lb lc bnd_Inr concat.simps append.simps)
  moreover have "map unread_count (sorted_reverse unread_count [?a, ?b, ?c]) = [10, 3, 1]"
    by (simp only: order) (simp add: unread_count_def count_value_def int_value_def)
  ultimately show ?thesis
    by simp
qed

subsection \<open>Failures of the upstream, and what the handler returns\<close>

lemma request_status_401:
  assumes "\<forall>req\<in>set (snd (request w client m e p b)). \<exists>r. send w req = Inr r \<and> status_code r = 401"
  shows "fst (request w client m e p b)
           = Inl (FeedlyError ''Authentication failed. Check FEEDLY_ACCESS_TOKEN.'' (Some 401))"
  using assms by (auto simp: request_def Let_def)

lemma request_status_429:
  assumes "\<forall>req\<in>set (snd (request w client m e p b)). \<exists>r. send w req = Inr r \<and> status_code r = 429"
  shows "fst (request w client m e p b)
           = Inl (FeedlyError ''Rate limit exceeded. Wait before retrying.'' (Some 429))"
  using assms by (auto simp: request_def Let_def)

lemma request_sends: "snd (request w client m e p b) \<noteq> []"
  by (simp add: request_def Let_def)

lemma request_returns:
  assumes "fst (request w client m e p b) = Inr v"
  shows "\<forall>req\<in>set (snd (request w client m e p b)).
           \<exists>r. send w req = Inr r \<and> 200 \<le> status_code r \<and> status_code r \<le> 299"
  using assms
  by (auto simp: request_def Let_def raise_for_status_def bnd_eq_Inr split: sum.splits if_splits)

lemma client_call_status_401:
  assumes "\<forall>req\<in>set (snd (client_call w client c)). \<exists>r. send w req = Inr r \<and> status_code r = 401"
  shows "fst (client_call w client c)
           = Inl (FeedlyError ''Authentication failed. Check FEEDLY_ACCESS_TOKEN.'' (Some 401))"
  using assms
  by (cases c)
     (simp_all add: get_profile_def get_subscriptions_def get_categories_def get_tags_def
        get_unread_counts_def get_stream_contents_def get_entry_def get_entries_def
        mark_as_read_def mark_feed_as_read_def mark_category_as_read_def keep_unread_def
        returning_None_def discard_def request_status_401)

lemma client_call_status_429:
  assumes "\<forall>req\<in>set (snd (client_call w client c)). \<exists>r. send w req = Inr r \<and> status_code r = 429"
  shows "fst (client_call w client c)
           = Inl (FeedlyError ''Rate limit exceeded. Wait before retrying.'' (Some 429))"
  using assms
  by (cases c)
     (simp_all add: get_profile_def get_subscriptions_def get_categories_def get_tags_def
        get_unread_counts_def get_stream_contents_def get_entry_def get_entries_def
        mark_as_read_def mark_feed_as_read_def mark_category_as_read_def keep_unread_def
        returning_None_def discard_def request_status_429)

lemma call_tool_requests:
  "snd (call_tool w c)
     = (case get_client w of Inl e \<Rightarrow> [] | Inr client \<Rightarrow> snd (client_call w client c))"
  by (simp add: call_tool_try_block except_Exception_def try_block_requests)

lemma call_tool_call_raises:
  assumes "get_client w = Inr client" and "fst (client_call w client c) = Inl e"
  shows "fst (call_tool w c) = handle_error e"
  using assms by (simp add: call_tool_try_block except_Exception_def try_block_factors)

text \<open>
  Claim C8. A tool invocation with an upstream HTTP call is one that sent a request; the
  requests sent are the second component of what \<open>call_tool\<close> returns. When the upstream
  answered each of them with the status 401, the tool returns exactly the first string
  below, and when it answered with the status 429, exactly the second.
\<close>

theorem upstream_401_and_429:
  assumes "snd (call_tool w c) \<noteq> []"
  shows "((\<forall>req\<in>set (snd (call_tool w c)). \<exists>r. send w req = Inr r \<and> status_code r = 401) \<longrightarrow>
            fst (call_tool w c) = ''Error: Authentication failed. Check FEEDLY_ACCESS_TOKEN.'')
       \<and> ((\<forall>req\<in>set (snd (call_tool w c)). \<exists>r. send w req = Inr r \<and> status_code r = 429) \<longrightarrow>
            fst (call_tool w c) = ''Error: Rate limit exceeded. Wait before retrying.'')"
proof -
  from assms obtain client where client: "get_client w = Inr client"
    by (cases "get_client w") (simp_all add: call_tool_requests)
  then have sent: "snd (call_tool w c) = snd (client_call w client c)"
    by (simp add: call_tool_requests)
  show ?thesis
    unfolding sent
    by (auto simp: call_tool_call_raises [OF client]
          dest!: client_call_status_401 client_call_status_429)
qed

text \<open>
  The theorem at the tool that fetches an entry, against an upstream that answers 401, and at
  the tool that marks entries as read, against an upstream that answers 429.
\<close>

theorem upstream_401_and_429_witness:
  "fst (call_tool (answering (text_response 401 ''Unauthorized''))
         (GetEntry \<lparr>entry_id = ''e1'', GetEntryInput.response_format = MARKDOWN\<rparr>))
     = ''Error: Authentication failed. Check FEEDLY_ACCESS_TOKEN.''
   \<and> fst (call_tool (answering (text_response 429 ''Too Many Requests''))
         (MarkAsRead \<lparr>MarkAsReadInput.entry_ids = [''e1'', ''e2'']\<rparr>))
     = ''Error: Rate limit exceeded. Wait before retrying.''"
proof -
  let ?w1 = "answering (text_response 401 ''Unauthorized'')"
  let ?c1 = "GetEntry \<lparr>entry_id = ''e1'', GetEntryInput.response_format = MARKDOWN\<rparr>"
  let ?w2 = "answering (text_response 429 ''Too Many Requests'')"
  let ?c2 = "MarkAsRead \<lparr>MarkAsReadInput.entry_ids = [''e1'', ''e2'']\<rparr>"
  have sent1: "snd (call_tool ?w1 ?c1) \<noteq> []"
    by (simp add: call_tool_requests get_entry_def request_def del: call_tool.simps)
  have sent2: "snd (call_tool ?w2 ?c2) \<noteq> []"
    by (simp add: call_tool_requests mark_as_read_def returning_None_def discard_def request_def
          del: call_tool.simps)
  have s401: "\<forall>req\<in>set (snd (call_tool ?w1 ?c1)). \<exists>r. send ?w1 req = Inr r \<and> status_code r = 401"
    by (simp add: text_response_def)
  have s429: "\<forall>req\<in>set (snd (call_tool ?w2 ?c2)). \<exists>r. send ?w2 req = Inr r \<and> status_code r = 429"
    by (simp add: text_response_def)
  from upstream_401_and_429 [OF sent1] s401
  have "fst (call_tool ?w1 ?c1) = ''Error: Authentication failed. Check FEEDLY_ACCESS_TOKEN.''"
    by blast
  moreover from upstream_401_and_429 [OF sent2] s429
  have "fst (call_tool ?w2 ?c2) = ''Error: Rate limit exceeded. Wait before retrying.''"
    by blast
  ultimately show ?thesis
    by simp
qed





subsection \<open>Lists of entry IDs\<close>

lemma parse_str_list_map_JStr: "parse_str_list (map JStr ss) = Some ss"
  by (induction ss) simp_all

lemma parse_entry_ids_out_of_bounds:
  "map_of kvs ''entry_ids'' = Some (JArr ids) \<Longrightarrow> length ids = 0 \<or> 1001 \<le> length ids \<Longrightarrow>
   parse_entry_ids kvs = None"
  by (auto simp: parse_entry_ids_def MAX_BATCH_SIZE_def)

lemma parse_entry_ids_in_bounds:
  "1 \<le> length ss \<Longrightarrow> length ss \<le> 1000 \<Longrightarrow>
   parse_entry_ids [(''entry_ids'', JArr (map JStr ss))] = Some ss"
  by (simp add: parse_entry_ids_def MAX_BATCH_SIZE_def parse_str_list_map_JStr)

text \<open>
  Claim C9. For the three tools whose input holds a list of entry IDs, arguments whose
  \<open>entry_ids\<close> is a list of no item, or of 1001 items or more, fail validation, and no
  request is sent (the list of requests is empty). Arguments that give a list of 1 to 1000
  strings and nothing else are accepted: validation gives the input with these IDs, and the
  call returns what the tool returns for it.
\<close>

theorem entry_id_list_bounds:
  "(map_of kvs ''entry_ids'' = Some (JArr ids) \<and> (length ids = 0 \<or> 1001 \<le> length ids) \<longrightarrow>
      invoke_mark_as_read w (JObj kvs) = (ValidationFailed, [])
      \<and> invoke_keep_unread w (JObj kvs) = (ValidationFailed, [])
      \<and> invoke_get_entries w (JObj kvs) = (ValidationFailed, []))
   \<and> (1 \<le> length ss \<and> length ss \<le> 1000 \<longrightarrow>
      validate_MarkAsReadInput (JObj [(''entry_ids'', JArr (map JStr ss))])
        = Some \<lparr>MarkAsReadInput.entry_ids = ss\<rparr>
      \<and> validate_KeepUnreadInput (JObj [(''entry_ids'', JArr (map JStr ss))])
        = Some \<lparr>KeepUnreadInput.entry_ids = ss\<rparr>
      \<and> validate_GetEntriesInput (JObj [(''entry_ids'', JArr (map JStr ss))])
        = Some \<lparr>GetEntriesInput.entry_ids = ss, GetEntriesInput.response_format = MARKDOWN\<rparr>
      \<and> invoke_mark_as_read w (JObj [(''entry_ids'', JArr (map JStr ss))])
        = (Returned (fst (feedly_mark_as_read w \<lparr>MarkAsReadInput.entry_ids = ss\<rparr>)),
           snd (feedly_mark_as_read w \<lparr>MarkAsReadInput.entry_ids = ss\<rparr>))
      \<and> invoke_keep_unread w (JObj [(''entry_ids'', JArr (map JStr ss))])
        = (Returned (fst (feedly_keep_unread w \<lparr>KeepUnreadInput.entry_ids = ss\<rparr>)),
           snd (feedly_keep_unread w \<lparr>KeepUnreadInput.entry_ids = ss\<rparr>))
      \<and> invoke_get_entries w (JObj [(''entry_ids'', JArr (map JStr ss))])
        = (Returned (fst (feedly_get_entries w
                       \<lparr>GetEntriesInput.entry_ids = ss,
                         GetEntriesInput.response_format = MARKDOWN\<rparr>)),
           snd (feedly_get_entries w
                  \<lparr>GetEntriesInput.entry_ids = ss,
                    GetEntriesInput.response_format = MARKDOWN\<rparr>)))"
proof (intro conjI impI)
  assume out: "map_of kvs ''entry_ids'' = Some (JArr ids) \<and> (length ids = 0 \<or> 1001 \<le> length ids)"
  then have none: "parse_entry_ids kvs = None"
    by (intro parse_entry_ids_out_of_bounds) blast+
  show "invoke_mark_as_read w (JObj kvs) = (ValidationFailed, [])"
    by (simp add: invoke_mark_as_read_def none)
  show "invoke_keep_unread w (JObj kvs) = (ValidationFailed, [])"
    by (simp add: invoke_keep_unread_def none)
  show "invoke_get_entries w (JObj kvs) = (ValidationFailed, [])"
    by (simp add: invoke_get_entries_def none)
next
  assume "1 \<le> length ss \<and> length ss \<le> 1000"
  then have some: "parse_entry_ids [(''entry_ids'', JArr (map JStr ss))] = Some ss"
    by (intro parse_entry_ids_in_bounds) blast+
  show "validate_MarkAsReadInput (JObj [(''entry_ids'', JArr (map JStr ss))])
        = Some \<lparr>MarkAsReadInput.entry_ids = ss\<rparr>"
    by (simp add: some)
  show "validate_KeepUnreadInput (JObj [(''entry_ids'', JArr (map JStr ss))])
        = Some \<lparr>KeepUnreadInput.entry_ids = ss\<rparr>"
    by (simp add: some)
  show "validate_GetEntriesInput (JObj [(''entry_ids'', JArr (map JStr ss))])
        = Some \<lparr>GetEntriesInput.entry_ids = ss, GetEntriesInput.response_format = MARKDOWN\<rparr>"
    by (simp add: some parse_response_format_def)
  show "invoke_mark_as_read w (JObj [(''entry_ids'', JArr (map JStr ss))])
        = (Returned (fst (feedly_mark_as_read w \<lparr>MarkAsReadInput.entry_ids = ss\<rparr>)),
           snd (feedly_mark_as_read w \<lparr>MarkAsReadInput.entry_ids = ss\<rparr>))"
    by (simp add: invoke_mark_as_read_def some)
  show "invoke_keep_unread w (JObj [(''entry_ids'', JArr (map JStr ss))])
        = (Returned (fst (feedly_keep_unread w \<lparr>KeepUnreadInput.entry_ids = ss\<rparr>)),
           snd (feedly_keep_unread w \<lparr>KeepUnreadInput.entry_ids = ss\<rparr>))"
    by (simp add: invoke_keep_unread_def some)
  show "invoke_get_entries w (JObj [(''entry_ids'', JArr (map JStr ss))])
        = (Returned (fst (feedly_get_entries w
                       \<lparr>GetEntriesInput.entry_ids = ss,
                         GetEntriesInput.response_format = MARKDOWN\<rparr>)),
           snd (feedly_get_entries w
                  \<lparr>GetEntriesInput.entry_ids = ss,
                    GetEntriesInput.response_format = MARKDOWN\<rparr>))"
    by (simp add: invoke_get_entries_def some parse_response_format_def)
qed

text \<open>
  The theorem at an empty list, at a list of 1001 IDs, and at a list of two IDs, which the
  tool marks as read.
\<close>

theorem entry_id_list_bounds_witness:
  "invoke_mark_as_read (answering (json_response 200 JNull)) (JObj [(''entry_ids'', JArr [])])
     = (ValidationFailed, [])
   \<and> invoke_keep_unread (answering (json_response 200 JNull))
         (JObj [(''entry_ids'', JArr (replicate 1001 (JStr ''e'')))])
     = (ValidationFailed, [])
   \<and> invoke_get_entries (answering (json_response 200 JNull))
         (JObj [(''entry_ids'', JArr (replicate 1001 (JStr ''e''))),
                (''response_format'', JStr ''json'')])
     = (ValidationFailed, [])
   \<and> validate_KeepUnreadInput (JObj [(''entry_ids'', JArr [JStr ''e1'', JStr ''e2''])])
     = Some \<lparr>KeepUnreadInput.entry_ids = [''e1'', ''e2'']\<rparr>
   \<and> fst (invoke_mark_as_read (answering (json_response 200 JNull))
         (JObj [(''entry_ids'', JArr [JStr ''e1'', JStr ''e2''])]))
     = Returned ''Successfully marked 2 article(s) as read.''"
proof -
  let ?w = "answering (json_response 200 JNull)"
  let ?long = "replicate 1001 (JStr ''e'')"
  have empty: "map_of [(''entry_ids'', JArr [])] ''entry_ids'' = Some (JArr [])
                 \<and> (length ([] :: json list) = 0 \<or> 1001 \<le> length ([] :: json list))"
    by simp
  have long1: "map_of [(''entry_ids'', JArr ?long)] ''entry_ids'' = Some (JArr ?long)
                 \<and> (length ?long = 0 \<or> 1001 \<le> length ?long)"
    by simp
  have long2: "map_of [(''entry_ids'', JArr ?long), (''response_format'', JStr ''json'')]
                 ''entry_ids'' = Some (JArr ?long)
                 \<and> (length ?long = 0 \<or> 1001 \<le> length ?long)"
    by simp
  have two: "1 \<le> length [''e1'', ''e2''] \<and> length [''e1'', ''e2''] \<le> 1000"
    by simp
  have run: "fst (feedly_mark_as_read ?w \<lparr>MarkAsReadInput.entry_ids = [''e1'', ''e2'']\<rparr>)
               = ''Successfully marked 2 article(s) as read.''"
    by (simp add: feedly_mark_as_read_def feedly_mark_as_read_try_def except_Exception_def
          tool_try_def mark_as_read_def discard_def request_def raise_for_status_def
          json_response_def)
  from entry_id_list_bounds [where kvs = "[(''entry_ids'', JArr [])]" and ids = "[]" and w = ?w]
    empty
  have "invoke_mark_as_read ?w (JObj [(''entry_ids'', JArr [])]) = (ValidationFailed, [])"
    by blast
  moreover
  from entry_id_list_bounds [where kvs = "[(''entry_ids'', JArr ?long)]" and ids = ?long and w = ?w]
    long1
  have "invoke_keep_unread ?w (JObj [(''entry_ids'', JArr ?long)]) = (ValidationFailed, [])"
    by blast
  moreover
  from entry_id_list_bounds
         [where kvs = "[(''entry_ids'', JArr ?long), (''response_format'', JStr ''json'')]"
            and ids = ?long and w = ?w] long2
  have "invoke_get_entries ?w
          (JObj [(''entry_ids'', JArr ?long), (''response_format'', JStr ''json'')])
          = (ValidationFailed, [])"
    by blast
  moreover
  from entry_id_list_bounds [where ss = "[''e1'', ''e2'']" and w = ?w] two
  have "validate_KeepUnreadInput (JObj [(''entry_ids'', JArr (map JStr [''e1'', ''e2'']))])
          = Some \<lparr>KeepUnreadInput.entry_ids = [''e1'', ''e2'']\<rparr>"
    and "invoke_mark_as_read ?w (JObj [(''entry_ids'', JArr (map JStr [''e1'', ''e2'']))])
          = (Returned (fst (feedly_mark_as_read ?w \<lparr>MarkAsReadInput.entry_ids = [''e1'', ''e2'']\<rparr>)),
             snd (feedly_mark_as_read ?w \<lparr>MarkAsReadInput.entry_ids = [''e1'', ''e2'']\<rparr>))"
    by blast+
  ultimately show ?thesis
    by (simp add: run)
qed

subsection \<open>An entry that is not found\<close>

text \<open>
  Claim C10. The upstream call of the tool that fetches one entry succeeds and returns the
  value \<open>v\<close>: the client is built and its method \<open>get_entry\<close> returns \<open>v\<close>, so every request
  sent was answered with a status from 200 to 299, and not with 404. When \<open>v\<close> is the empty
  list (or another value that is not truthy), the \<open>try\<close> block returns the string
  \<open>Error: Article not found.\<close> itself, with no exception, and that is the result of the tool.
  When \<open>v\<close> is a list that is not empty, the tool formats its first element: the JSON dump or
  the markdown rendering with the content, passed through \<open>_truncate_response\<close>, or the error
  string when the rendering raises.
\<close>

theorem get_entry_empty_list:
  assumes "get_client w = Inr client"
    and "fst (get_entry w client (GetEntryInput.entry_id params)) = Inr v"
  shows "(v = JArr [] \<or> \<not> py_truthy v \<longrightarrow>
            fst (feedly_get_entry_try w params) = Inr ''Error: Article not found.''
            \<and> fst (feedly_get_entry w params) = ''Error: Article not found.'')
       \<and> (\<forall>e es. v = JArr (e # es) \<longrightarrow>
            fst (feedly_get_entry w params)
              = (if GetEntryInput.response_format params = JSON
                 then truncate_response (json_dumps e)
                 else (case format_entry_markdown (local_time w) e True of
                         Inl x \<Rightarrow> handle_error x
                       | Inr s \<Rightarrow> truncate_response s)))
       \<and> snd (feedly_get_entry w params) \<noteq> []
       \<and> (\<forall>req\<in>set (snd (feedly_get_entry w params)).
             \<exists>r. send w req = Inr r \<and> 200 \<le> status_code r \<and> status_code r \<le> 299
                 \<and> status_code r \<noteq> 404)"
proof (intro conjI)
  show "v = JArr [] \<or> \<not> py_truthy v \<longrightarrow>
            fst (feedly_get_entry_try w params) = Inr ''Error: Article not found.''
            \<and> fst (feedly_get_entry w params) = ''Error: Article not found.''"
    using assms
    by (auto simp: feedly_get_entry_def feedly_get_entry_try_def except_Exception_def tool_try_def)
  show "\<forall>e es. v = JArr (e # es) \<longrightarrow>
            fst (feedly_get_entry w params)
              = (if GetEntryInput.response_format params = JSON
                 then truncate_response (json_dumps e)
                 else (case format_entry_markdown (local_time w) e True of
                         Inl x \<Rightarrow> handle_error x
                       | Inr s \<Rightarrow> truncate_response s))"
    using assms
    by (auto simp: feedly_get_entry_def feedly_get_entry_try_def except_Exception_def tool_try_def
          split: sum.splits)
  have sent: "snd (feedly_get_entry w params)
                = snd (request w client ''GET''
                         (''/entries/'' @ quote (GetEntryInput.entry_id params)) None None)"
    using assms(1)
    by (simp add: feedly_get_entry_def feedly_get_entry_try_def except_Exception_def tool_try_def
          get_entry_def)
  show "snd (feedly_get_entry w params) \<noteq> []"
    unfolding sent by (rule request_sends)
  show "\<forall>req\<in>set (snd (feedly_get_entry w params)).
             \<exists>r. send w req = Inr r \<and> 200 \<le> status_code r \<and> status_code r \<le> 299
                 \<and> status_code r \<noteq> 404"
    unfolding sent
    using request_returns [OF assms(2) [unfolded get_entry_def]] by fastforce
qed

text \<open>
  The theorem at an upstream that answers 200 with the empty list, and at one that answers
  with a list of one entry, which the tool dumps in JSON mode.
\<close>

theorem get_entry_empty_list_witness:
  "fst (feedly_get_entry (answering (json_response 200 (JArr [])))
         \<lparr>entry_id = ''e1'', GetEntryInput.response_format = MARKDOWN\<rparr>)
     = ''Error: Article not found.''
   \<and> fst (feedly_get_entry_try (answering (json_response 200 (JArr [])))
         \<lparr>entry_id = ''e1'', GetEntryInput.response_format = MARKDOWN\<rparr>)
     = Inr ''Error: Article not found.''
   \<and> fst (feedly_get_entry (answering (json_response 200 (JArr [JObj [(''id'', JStr ''e1'')]])))
         \<lparr>entry_id = ''e1'', GetEntryInput.response_format = JSON\<rparr>)
     = truncate_response (json_dumps (JObj [(''id'', JStr ''e1'')]))"
proof -
  let ?client = "\<lparr>access_token = ''token'', base_url = API_BASE_URL\<rparr>"
  have client: "get_client (answering r) = Inr ?client" for r
    by simp
  have got: "fst (get_entry (answering (json_response 200 v)) ?client (GetEntryInput.entry_id p))
               = Inr v" for v p
    by (simp add: get_entry_def request_def raise_for_status_def json_response_def)
  from get_entry_empty_list [OF client got, of "JArr []"
         "\<lparr>entry_id = ''e1'', GetEntryInput.response_format = MARKDOWN\<rparr>"]
  have "fst (feedly_get_entry (answering (json_response 200 (JArr [])))
               \<lparr>entry_id = ''e1'', GetEntryInput.response_format = MARKDOWN\<rparr>)
          = ''Error: Article not found.''"
    and "fst (feedly_get_entry_try (answering (json_response 200 (JArr [])))
               \<lparr>entry_id = ''e1'', GetEntryInput.response_format = MARKDOWN\<rparr>)
          = Inr ''Error: Article not found.''"
    by blast+
  moreover
  from get_entry_empty_list [OF client got, of "JArr [JObj [(''id'', JStr ''e1'')]]"
         "\<lparr>entry_id = ''e1'', GetEntryInput.response_format = JSON\<rparr>"]
  have "fst (feedly_get_entry (answering (json_response 200 (JArr [JObj [(''id'', JStr ''e1'')]])))
               \<lparr>entry_id = ''e1'', GetEntryInput.response_format = JSON\<rparr>)
          = truncate_response (json_dumps (JObj [(''id'', JStr ''e1'')]))"
    by simp
  ultimately show ?thesis
    by simp
qed

subsection \<open>The content of an entry\<close>

lemma py_in_dict: "py_in k (JObj kvs) = Inr (map_of kvs k \<noteq> None)"
  by (simp add: map_of_eq_None_iff)

lemmas py_in_simps = py_in.simps(2-) py_in_dict







subsection \<open>The summary and the content of an entry block\<close>

lemma py_join_snoc: "xs \<noteq> [] \<Longrightarrow> py_join sep (xs @ [x]) = py_join sep xs @ sep @ x"
  by (induction sep xs rule: py_join.induct) simp_all

lemma truncate_text_str: "truncate_text (JStr s) 300 = Inr (JStr (summary_of s))"
  by (simp add: summary_of_def py_slice_to_def)

lemma summary_of_nonempty: "s \<noteq> [] \<Longrightarrow> summary_of s \<noteq> []"
  by (simp add: summary_of_def)

lemma length_summary_of: "length (summary_of s) \<le> 300"
  by (simp add: summary_of_def)

lemma entry_block_ends:
  assumes content: "get_article_content entry = Inr (JStr body)" and "body \<noteq> []"
    and out: "format_entry_markdown clock entry False = Inr out"
  shows "\<exists>pre. out = pre @ ''\<newline>\<newline>**Summary:** '' @ summary_of body
           \<and> format_entry_markdown clock entry True
               = Inr (pre @ ''\<newline>\<newline>**Content:**\<newline>'' @ body)"
proof -
  from out obtain title author ms published alt first_alt canonical url entry_id unread
    where steps:
      "dict_get entry ''title'' (JStr ''Untitled'') = Inr title"
      "dict_get entry ''author'' (JStr ''Unknown author'') = Inr author"
      "dict_get entry ''published'' JNull = Inr ms"
      "format_timestamp clock ms = Inr published"
      "dict_get entry ''alternate'' (JArr [JObj []]) = Inr alt"
      "py_first alt = Inr first_alt"
      "dict_get entry ''canonicalUrl'' (JStr []) = Inr canonical"
      "dict_get first_alt ''href'' canonical = Inr url"
      "dict_get entry ''id'' (JStr []) = Inr entry_id"
      "dict_get entry ''unread'' (JBool False) = Inr unread"
    unfolding format_entry_markdown_def by (auto simp: bnd_eq_Inr)
  let ?head = "[''### '' @ py_str title,
           ''**Author:** '' @ py_str author @ '' | **Published:** '' @ published
             @ '' | **Unread:** '' @ (if py_truthy unread then ''Yes'' else ''No''),
           ''**ID:** `'' @ py_str entry_id @ ''`'']
          @ (if py_truthy url
             then [''**URL:** ['' @ py_str url @ '']('' @ py_str url @ '')''] else [])"
  have truthy: "py_truthy (JStr body)" "py_truthy (JStr (summary_of body))"
    using \<open>body \<noteq> []\<close> by (simp_all add: summary_of_nonempty)
  have no: "format_entry_markdown clock entry False
          = Inr (py_join ''\<newline>'' (?head @ [''\<newline>**Summary:** '' @ summary_of body]))"
    unfolding format_entry_markdown_def
    by (simp only: steps content truncate_text_str bnd_Inr truthy simp_thms if_True if_False
          py_str.simps append_assoc)
  have yes: "format_entry_markdown clock entry True
          = Inr (py_join ''\<newline>'' (?head @ [''\<newline>**Content:**\<newline>'' @ body]))"
    unfolding format_entry_markdown_def
    by (simp only: steps content truncate_text_str bnd_Inr truthy simp_thms if_True if_False
          py_str.simps append_assoc)
  have "?head \<noteq> []"
    by simp
  note snoc = py_join_snoc [OF this]
  from out no have "Inr out = (Inr (py_join ''\<newline>''
      (?head @ [''\<newline>**Summary:** '' @ summary_of body])) :: exn + string)"
    by (rule trans [OF sym])
  then have "out = py_join ''\<newline>'' (?head @ [''\<newline>**Summary:** '' @ summary_of body])"
    by (simp only: sum.inject)
  also have "\<dots> = py_join ''\<newline>'' ?head @ ''\<newline>'' @ ''\<newline>**Summary:** '' @ summary_of body"
    by (rule snoc)
  finally have "out = py_join ''\<newline>'' ?head @ ''\<newline>\<newline>**Summary:** '' @ summary_of body"
    by simp
  moreover have "format_entry_markdown clock entry True
      = Inr (py_join ''\<newline>'' ?head @ ''\<newline>'' @ ''\<newline>**Content:**\<newline>'' @ body)"
    by (simp only: yes snoc)
  then have "format_entry_markdown clock entry True
      = Inr (py_join ''\<newline>'' ?head @ ''\<newline>\<newline>**Content:**\<newline>'' @ body)"
    by simp
  ultimately show ?thesis
    by blast
qed

text \<open>
  Claim C6. \<open>_truncate_text\<close> with the limit 300 returns a text of at most 300 characters as
  it is and cuts a longer one to its first 297 characters followed by \<open>...\<close>
  (\<open>summary_of\<close>). In the block of an entry whose content is the text \<open>body\<close>, not empty, the
  rendering without the content ends with the summary line, which shows \<open>summary_of body\<close>,
  and the rendering with the content is the same block ending with the content lines
  instead, which show \<open>body\<close> whole.
\<close>

theorem summary_is_cut_content_is_not:
  "truncate_text (JStr s) 300 = Inr (JStr (summary_of s))
   \<and> (length s \<le> 300 \<longrightarrow> summary_of s = s)
   \<and> (300 < length s \<longrightarrow> summary_of s = take 297 s @ ''...'' \<and> length (summary_of s) = 300)
   \<and> (get_article_content entry = Inr (JStr body) \<and> body \<noteq> []
        \<and> format_entry_markdown clock entry False = Inr out \<longrightarrow>
        (\<exists>pre. out = pre @ ''\<newline>\<newline>**Summary:** '' @ summary_of body
           \<and> format_entry_markdown clock entry True
               = Inr (pre @ ''\<newline>\<newline>**Content:**\<newline>'' @ body)))"
proof (intro conjI impI)
  show "truncate_text (JStr s) 300 = Inr (JStr (summary_of s))"
    by (rule truncate_text_str)
  show "summary_of s = s" if "length s \<le> 300"
    using that by (simp add: summary_of_def)
  show "summary_of s = take 297 s @ ''...''" if "300 < length s"
    using that by (simp add: summary_of_def)
  show "length (summary_of s) = 300" if "300 < length s"
    using that by (simp add: summary_of_def)
  show "\<exists>pre. out = pre @ ''\<newline>\<newline>**Summary:** '' @ summary_of body
           \<and> format_entry_markdown clock entry True
               = Inr (pre @ ''\<newline>\<newline>**Content:**\<newline>'' @ body)"
    if "get_article_content entry = Inr (JStr body) \<and> body \<noteq> []
        \<and> format_entry_markdown clock entry False = Inr out"
    using that by (intro entry_block_ends) blast+
qed

text \<open>
  The theorem at a summary body of 301 characters: the summary is cut to 297 characters and
  the ellipsis, and the rendering with the content shows the 301 characters.
\<close>

theorem summary_is_cut_content_is_not_witness:
  "truncate_text (JStr (replicate 301 CHR ''x'')) 300 = Inr (JStr (replicate 297 CHR ''x'' @ ''...''))
   \<and> truncate_text (JStr ''short'') 300 = Inr (JStr ''short'')
   \<and> format_entry_markdown (\<lambda>n. Inr ''2024-01-01 00:00'')
        (JObj [(''title'', JStr ''T''),
               (''summary'', JObj [(''content'', JStr (replicate 301 CHR ''x''))])]) True
     = Inr (''### T\<newline>**Author:** Unknown author | **Published:** Unknown | **Unread:** No\<newline>''
            @ ''**ID:** ``'' @ ''\<newline>\<newline>**Content:**\<newline>'' @ replicate 301 CHR ''x'')"
proof -
  let ?body = "replicate 301 CHR ''x''"
  let ?entry = "JObj [(''title'', JStr ''T''), (''summary'', JObj [(''content'', JStr ?body)])]"
  let ?clock = "\<lambda>n::int. Inr ''2024-01-01 00:00'' :: exn + string"
  let ?head = "''### T\<newline>**Author:** Unknown author | **Published:** Unknown | **Unread:** No\<newline>''
            @ ''**ID:** ``''"
  have long: "300 < length ?body" and short: "length ''short'' \<le> 300"
    by simp_all
  from summary_is_cut_content_is_not [of ?body] long
  have "truncate_text (JStr ?body) 300 = Inr (JStr (take 297 ?body @ ''...''))"
    by simp
  then have t1: "truncate_text (JStr ?body) 300 = Inr (JStr (replicate 297 CHR ''x'' @ ''...''))"
    by simp
  from summary_is_cut_content_is_not [of "''short''"] short
  have t2: "truncate_text (JStr ''short'') 300 = Inr (JStr ''short'')"
    by simp
  have content: "get_article_content ?entry = Inr (JStr ?body)"
    by (simp add: get_article_content_def)
  have nonempty: "?body \<noteq> []"
    by simp
  have out: "format_entry_markdown ?clock ?entry False
               = Inr (?head @ ''\<newline>\<newline>**Summary:** '' @ summary_of ?body)"
    by (simp add: format_entry_markdown_def content summary_of_def py_slice_to_def)
  from summary_is_cut_content_is_not [of _ ?entry ?body ?clock "?head @ ''\<newline>\<newline>**Summary:** '' @ summary_of ?body"]
    content nonempty out
  obtain pre where pre: "?head @ ''\<newline>\<newline>**Summary:** '' @ summary_of ?body
                    = pre @ ''\<newline>\<newline>**Summary:** '' @ summary_of ?body"
    and full: "format_entry_markdown ?clock ?entry True
                 = Inr (pre @ ''\<newline>\<newline>**Content:**\<newline>'' @ ?body)"
    by auto
  from pre have "pre = ?head"
    by (simp only: append_same_eq)
  with full t1 t2 show ?thesis
    by simp
qed

subsection \<open>The JSON mode of the listings\<close>

text \<open>
  Claim C2, as the code has it. Only the tool for the contents of a stream builds a result
  with the fields \<open>items\<close> and \<open>count\<close>. In JSON mode, when the method of the client
  returns a dict \<open>data\<close> whose \<open>items\<close> is a list (or is absent, which is the empty list), the
  tool returns \<open>_truncate_response\<close> of the JSON dump of a dict whose field \<open>items\<close> is that list
  and whose field \<open>count\<close> is the number of its elements, and the dump itself when it has at
  most 25,000 characters. The tools for subscriptions, categories and tags return the dump
  of the payload as it is (see the counterexample).
\<close>

theorem stream_contents_json_count:
  assumes "get_client w = Inr client"
    and "GetStreamContentsInput.response_format params = JSON"
    and "fst (client_call w client (GetStreamContents params)) = Inr data"
    and "dict_get data ''items'' (JArr []) = Inr (JArr xs)"
    and "dict_get data ''continuation'' JNull = Inr cont"
  shows "format_stream_contents (local_time w) data JSON
           = Inr (json_dumps (stream_contents_result (JArr xs) (length xs) cont))
       \<and> fst (call_tool w (GetStreamContents params))
           = truncate_response (json_dumps (stream_contents_result (JArr xs) (length xs) cont))
       \<and> (length (json_dumps (stream_contents_result (JArr xs) (length xs) cont)) \<le> 25000 \<longrightarrow>
            fst (call_tool w (GetStreamContents params))
              = json_dumps (stream_contents_result (JArr xs) (length xs) cont))
       \<and> dict_get (stream_contents_result (JArr xs) (length xs) cont) ''items'' JNull
           = Inr (JArr xs)
       \<and> dict_get (stream_contents_result (JArr xs) (length xs) cont) ''count'' JNull
           = Inr (JInt (int (length xs)))"
proof -
  let ?result = "stream_contents_result (JArr xs) (length xs) cont"
  have fmt: "format_stream_contents (local_time w) data JSON = Inr (json_dumps ?result)"
    using assms(4,5) by (simp add: format_stream_contents_def)
  then have "formatted w (GetStreamContents params) data = Inr (json_dumps ?result)"
    using assms(2) by simp
  with assms(1,3)
  have tool: "fst (call_tool w (GetStreamContents params)) = truncate_response (json_dumps ?result)"
    by (intro read_tool_caps_content) simp_all
  have capped: "fst (call_tool w (GetStreamContents params)) = json_dumps ?result"
    if "length (json_dumps ?result) \<le> 25000"
    unfolding tool by (rule truncate_response_short [OF that])
  have "dict_get ?result ''items'' JNull = Inr (JArr xs)"
    and "dict_get ?result ''count'' JNull = Inr (JInt (int (length xs)))"
    by (simp_all add: stream_contents_result_def)
  with fmt tool capped show ?thesis
    by blast
qed

lemma str_int_2: "str_int 2 = ''2''"
  by code_simp

text \<open>
  The theorem at a stream of two entries with a continuation: the tool returns the dump of
  the two items, the count 2 and the continuation.
\<close>

theorem stream_contents_json_count_witness:
  "fst (call_tool
         (answering (json_response 200
            (JObj [(''id'', JStr ''feed/x''),
                   (''items'', JArr [JObj [(''id'', JStr ''e1'')], JObj [(''id'', JStr ''e2'')]]),
                   (''continuation'', JStr ''c1'')])))
         (GetStreamContents
            \<lparr>stream_id = ''feed/x'', count = 20, unread_only = True, continuation = None,
              ranked = newest, GetStreamContentsInput.response_format = JSON\<rparr>))
     = json_dumps (JObj [(''items'', JArr [JObj [(''id'', JStr ''e1'')], JObj [(''id'', JStr ''e2'')]]),
                         (''count'', JInt 2), (''continuation'', JStr ''c1'')])
   \<and> json_dumps (JObj [(''items'', JArr [JObj [(''id'', JStr ''e1'')], JObj [(''id'', JStr ''e2'')]]),
                       (''count'', JInt 2), (''continuation'', JStr ''c1'')])
     = ''{\<newline>  '' @ [CHR 0x22] @ ''items'' @ [CHR 0x22] @ '': [\<newline>    {\<newline>      ''
       @ [CHR 0x22] @ ''id'' @ [CHR 0x22] @ '': '' @ [CHR 0x22] @ ''e1'' @ [CHR 0x22]
       @ ''\<newline>    },\<newline>    {\<newline>      ''
       @ [CHR 0x22] @ ''id'' @ [CHR 0x22] @ '': '' @ [CHR 0x22] @ ''e2'' @ [CHR 0x22]
       @ ''\<newline>    }\<newline>  ],\<newline>  '' @ [CHR 0x22] @ ''count'' @ [CHR 0x22] @ '': 2,\<newline>  ''
       @ [CHR 0x22] @ ''continuation'' @ [CHR 0x22] @ '': '' @ [CHR 0x22] @ ''c1'' @ [CHR 0x22]
       @ ''\<newline>}''"
proof -
  let ?items = "[JObj [(''id'', JStr ''e1'')], JObj [(''id'', JStr ''e2'')]]"
  let ?data = "JObj [(''id'', JStr ''feed/x''), (''items'', JArr ?items),
                     (''continuation'', JStr ''c1'')]"
  let ?w = "answering (json_response 200 ?data)"
  let ?p = "\<lparr>stream_id = ''feed/x'', count = 20, unread_only = True, continuation = None,
              ranked = newest, GetStreamContentsInput.response_format = JSON\<rparr>"
  let ?client = "\<lparr>access_token = ''token'', base_url = API_BASE_URL\<rparr>"
  let ?result = "JObj [(''items'', JArr ?items), (''count'', JInt 2), (''continuation'', JStr ''c1'')]"
  have client: "get_client ?w = Inr ?client"
    by simp
  have json: "GetStreamContentsInput.response_format ?p = JSON"
    by simp
  have payload: "fst (client_call ?w ?client (GetStreamContents ?p)) = Inr ?data"
    by (simp add: get_stream_contents_def request_def raise_for_status_def json_response_def)
  have items: "dict_get ?data ''items'' (JArr []) = Inr (JArr ?items)"
    by simp
  have cont: "dict_get ?data ''continuation'' JNull = Inr (JStr ''c1'')"
    by simp
  have result: "stream_contents_result (JArr ?items) (length ?items) (JStr ''c1'') = ?result"
    by (simp add: stream_contents_result_def)
  have dump: "json_dumps ?result
     = ''{\<newline>  '' @ [CHR 0x22] @ ''items'' @ [CHR 0x22] @ '': [\<newline>    {\<newline>      ''
       @ [CHR 0x22] @ ''id'' @ [CHR 0x22] @ '': '' @ [CHR 0x22] @ ''e1'' @ [CHR 0x22]
       @ ''\<newline>    },\<newline>    {\<newline>      ''
       @ [CHR 0x22] @ ''id'' @ [CHR 0x22] @ '': '' @ [CHR 0x22] @ ''e2'' @ [CHR 0x22]
       @ ''\<newline>    }\<newline>  ],\<newline>  '' @ [CHR 0x22] @ ''count'' @ [CHR 0x22] @ '': 2,\<newline>  ''
       @ [CHR 0x22] @ ''continuation'' @ [CHR 0x22] @ '': '' @ [CHR 0x22] @ ''c1'' @ [CHR 0x22]
       @ ''\<newline>}''"
    by (simp add: json_dumps_def newline_indent_def json_quote_def json_escape_char_def
          numeral_eq_Suc str_int_2)
  have short: "length (json_dumps ?result) \<le> 25000"
    by (simp only: dump) simp
  from stream_contents_json_count [OF client json payload items cont, unfolded result] short
  have "fst (call_tool ?w (GetStreamContents ?p)) = json_dumps ?result"
    by blast
  with dump show ?thesis
    by (simp only: simp_thms)
qed

text \<open>
  Claim C2 fails as stated for the three other listing tools. In JSON mode the tools for
  subscriptions, categories and tags return the dump of the list that the upstream sent:
  the string parses to a list, which has no field \<open>count\<close> and no field \<open>items\<close>.
\<close>

theorem listing_json_is_the_bare_payload:
  "fst (feedly_get_subscriptions
          (answering (json_response 200 (JArr [JObj [(''id'', JStr ''feed/x'')]])))
          \<lparr>SimpleResponseFormatInput.response_format = JSON\<rparr>)
     = ''[\<newline>  {\<newline>    '' @ [CHR 0x22] @ ''id'' @ [CHR 0x22] @ '': '' @ [CHR 0x22] @ ''feed/x''
       @ [CHR 0x22] @ ''\<newline>  }\<newline>]''
   \<and> fst (feedly_get_categories
          (answering (json_response 200 (JArr [JObj [(''id'', JStr ''feed/x'')]])))
          \<lparr>SimpleResponseFormatInput.response_format = JSON\<rparr>)
     = ''[\<newline>  {\<newline>    '' @ [CHR 0x22] @ ''id'' @ [CHR 0x22] @ '': '' @ [CHR 0x22] @ ''feed/x''
       @ [CHR 0x22] @ ''\<newline>  }\<newline>]''
   \<and> fst (feedly_get_tags
          (answering (json_response 200 (JArr [JObj [(''id'', JStr ''feed/x'')]])))
          \<lparr>SimpleResponseFormatInput.response_format = JSON\<rparr>)
     = ''[\<newline>  {\<newline>    '' @ [CHR 0x22] @ ''id'' @ [CHR 0x22] @ '': '' @ [CHR 0x22] @ ''feed/x''
       @ [CHR 0x22] @ ''\<newline>  }\<newline>]''"
proof -
  let ?payload = "JArr [JObj [(''id'', JStr ''feed/x'')]]"
  have dump: "json_dumps ?payload
     = ''[\<newline>  {\<newline>    '' @ [CHR 0x22] @ ''id'' @ [CHR 0x22] @ '': '' @ [CHR 0x22] @ ''feed/x''
       @ [CHR 0x22] @ ''\<newline>  }\<newline>]''"
    by (simp add: json_dumps_def newline_indent_def json_quote_def json_escape_char_def
          numeral_eq_Suc)
  have short: "length (json_dumps ?payload) \<le> 25000"
    by (simp only: dump) simp
  have "fst (feedly_get_subscriptions (answering (json_response 200 ?payload))
          \<lparr>SimpleResponseFormatInput.response_format = JSON\<rparr>) = json_dumps ?payload"
    using short
    by (simp add: feedly_get_subscriptions_def feedly_get_subscriptions_try_def
          except_Exception_def tool_try_def get_subscriptions_def request_def
          raise_for_status_def json_response_def truncate_response_short)
  moreover
  have "fst (feedly_get_categories (answering (json_response 200 ?payload))
          \<lparr>SimpleResponseFormatInput.response_format = JSON\<rparr>) = json_dumps ?payload"
    using short
    by (simp add: feedly_get_categories_def feedly_get_categories_try_def
          except_Exception_def tool_try_def get_categories_def request_def
          raise_for_status_def json_response_def truncate_response_short)
  moreover
  have "fst (feedly_get_tags (answering (json_response 200 ?payload))
          \<lparr>SimpleResponseFormatInput.response_format = JSON\<rparr>) = json_dumps ?payload"
    using short
    by (simp add: feedly_get_tags_def feedly_get_tags_try_def
          except_Exception_def tool_try_def get_tags_def request_def
          raise_for_status_def json_response_def truncate_response_short)
  ultimately show ?thesis
    by (simp only: dump simp_thms)
qed

subsection \<open>Timestamps\<close>

lemma division_overflow_raises:
  assumes "division_overflows n"
  shows "format_timestamp clock (JInt n)
           = Inl (PyError OverflowError ''integer division result too large for a float'')"
    and "format_entry_markdown clock (JObj [(''published'', JInt n)]) include_content
           = Inl (PyError OverflowError ''integer division result too large for a float'')"
  using assms by (simp_all add: format_entry_markdown_def format_epoch_ms_def)

text \<open>
  Claim C5 fails on the code: \<open>_format_timestamp\<close> catches \<open>ValueError\<close> and \<open>OSError\<close> only.
  For the integer \<open>10 ** 400\<close> the division \<open>timestamp_ms / 1000\<close> raises \<open>OverflowError\<close>,
  whatever the platform, and the formatter raises it instead of returning \<open>Unknown\<close>; so does
  the rendering of an entry published at that time.
\<close>

theorem format_timestamp_raises:
  "format_timestamp clock (JInt (10 ^ 400))
     = Inl (PyError OverflowError ''integer division result too large for a float'')
   \<and> format_entry_markdown clock (JObj [(''published'', JInt (10 ^ 400))]) include_content
     = Inl (PyError OverflowError ''integer division result too large for a float'')"
proof -
  have "division_overflows (10 ^ 400)"
    by (simp add: division_overflows_def)
  then show ?thesis
    by (intro conjI division_overflow_raises)
qed

text \<open>
  What the formatter does otherwise: \<open>None\<close> gives \<open>Unknown\<close>; for an integer whose division
  does not overflow, a \<open>ValueError\<close> or \<open>OSError\<close> of the platform gives \<open>Unknown\<close> and the
  text of the platform is returned as it is.
\<close>

lemma format_timestamp_unknown:
  "format_timestamp clock JNull = Inr ''Unknown''"
  "\<not> division_overflows n \<Longrightarrow> clock n = Inl (PyError ValueError msg) \<Longrightarrow>
   format_timestamp clock (JInt n) = Inr ''Unknown''"
  "\<not> division_overflows n \<Longrightarrow> clock n = Inl (PyError OSError msg) \<Longrightarrow>
   format_timestamp clock (JInt n) = Inr ''Unknown''"
  "\<not> division_overflows n \<Longrightarrow> clock n = Inr s \<Longrightarrow> format_timestamp clock (JInt n) = Inr s"
  by (simp_all add: format_epoch_ms_def)

end
